theory Spec2Isabelle
  imports Complex_Main
begin

section \<open>JavaScript values as the handlers see them\<close>

text \<open>
  The gateway exists in six variants, each an Edge function \<open>handler(req)\<close>:
  \<^item> \<open>src/api/chat.js\<close> (validating, with content-type check and the Responses path);
  \<^item> \<open>src/unnamed/part_000\<close> (minimal, two upstream paths);
  \<^item> \<open>src/unnamed/part_001\<close> (streaming, fixed model);
  \<^item> \<open>src/unnamed/part_002\<close>, first file (allow-list with fallback);
  \<^item> \<open>src/unnamed/part_002\<close>, second file (streaming with \<open>validateRequest\<close>);
  \<^item> \<open>src/scripts/app.js\<close> (buffered with \<open>validateRequest\<close> and metadata).

  A parsed JSON document is a value of \<open>json\<close>. Numbers are the integers (what the
  code computes with: lengths and counts); an object is the list of its own properties,
  a property being read at its first entry. \<open>undefined\<close> is \<open>None\<close> of
  \<open>json option\<close>. Strings are sequences of code units.
\<close>

datatype json =
    JNull
  | JBool bool
  | JNum int
  | JStr string
  | JArr "json list"
  | JObj "(string \<times> json) list"

text \<open>A thrown value: an Error object with its \<open>name\<close> and \<open>message\<close>.\<close>

datatype js_error = Js_error (err_name: string) (err_message: string)

fun truthy :: "json \<Rightarrow> bool" where
  "truthy JNull = False"
| "truthy (JBool b) = b"
| "truthy (JNum n) = (n \<noteq> 0)"
| "truthy (JStr s) = (s \<noteq> [])"
| "truthy (JArr xs) = True"
| "truthy (JObj kvs) = True"

definition truthy_opt :: "json option \<Rightarrow> bool" where
  "truthy_opt v = (case v of None \<Rightarrow> False | Some x \<Rightarrow> truthy x)"

text \<open>\<open>typeof v === 'string'\<close> and \<open>typeof v === 'object'\<close> (true of \<open>null\<close> and of arrays).\<close>

fun is_string :: "json \<Rightarrow> bool" where
  "is_string (JStr s) = True"
| "is_string v = False"

fun typeof_object :: "json \<Rightarrow> bool" where
  "typeof_object JNull = True"
| "typeof_object (JArr xs) = True"
| "typeof_object (JObj kvs) = True"
| "typeof_object v = False"

text \<open>
  Property read \<open>v.k\<close> on a value that is neither \<open>null\<close> nor \<open>undefined\<close>. The handlers
  read the properties \<open>messages\<close>, \<open>model\<close>, \<open>useResponsesApi\<close>,
  \<open>previous_response_id\<close>, \<open>role\<close>, \<open>content\<close>, \<open>length\<close>, \<open>error\<close> and
  \<open>message\<close>; of these a string and an array have \<open>length\<close> only, a number and a
  boolean none.
\<close>

fun js_get :: "json \<Rightarrow> string \<Rightarrow> json option" where
  "js_get (JObj kvs) k = map_of kvs k"
| "js_get (JStr s) k = (if k = ''length'' then Some (JNum (int (length s))) else None)"
| "js_get (JArr xs) k = (if k = ''length'' then Some (JNum (int (length xs))) else None)"
| "js_get v k = None"

text \<open>Reading a property \<open>k\<close> of \<open>null\<close> throws this TypeError (the message is V8's).\<close>

definition null_read :: "string \<Rightarrow> js_error" where
  "null_read k = Js_error ''TypeError''
     (''Cannot read properties of null (reading '' @ [CHR 0x27] @ k @ [CHR 0x27] @ '')'')"

text \<open>Optional chaining \<open>v?.k\<close>: \<open>undefined\<close> when \<open>v\<close> is \<open>null\<close> or \<open>undefined\<close>.\<close>

definition opt_chain :: "json option \<Rightarrow> string \<Rightarrow> json option" where
  "opt_chain v k = (case v of None \<Rightarrow> None | Some x \<Rightarrow> if x = JNull then None else js_get x k)"

text \<open>Plain decimal digits, as JavaScript prints an integer of magnitude below \<open>10^21\<close>:
  used for the indices, statuses and constants the handlers print. How an arbitrary
  number of a document prints is the runtime's \<open>Number.prototype.toString\<close>, a parameter
  (\<open>number_text\<close> below).\<close>

fun string_of_nat :: "nat \<Rightarrow> string" where
  "string_of_nat n =
     (if n < 10 then [''0123456789'' ! n]
      else string_of_nat (n div 10) @ [''0123456789'' ! (n mod 10)])"

declare string_of_nat.simps [simp del]

definition string_of_int :: "int \<Rightarrow> string" where
  "string_of_int i = (if i < 0 then ''-'' @ string_of_nat (nat (- i)) else string_of_nat (nat i))"

text \<open>
  \<open>String(v)\<close>, the conversion a template literal applies to an interpolated value. An
  object is converted through its \<open>toString\<close>: the inherited one gives
  \<open>[object Object]\<close>, but an own property \<open>toString\<close> of a parsed document is never
  callable, and then neither \<open>toString\<close> nor \<open>valueOf\<close> yields a primitive and the
  conversion throws a TypeError (the message is V8's). An array is joined with commas,
  \<open>null\<close> elements printing as nothing, the first element that throws ending the
  conversion.
\<close>

definition not_primitive :: js_error where
  "not_primitive = Js_error ''TypeError'' ''Cannot convert object to primitive value''"

fun js_String :: "(int \<Rightarrow> string) \<Rightarrow> json \<Rightarrow> js_error + string"
  and js_join :: "(int \<Rightarrow> string) \<Rightarrow> json list \<Rightarrow> js_error + string" where
  "js_String nt JNull = Inr ''null''"
| "js_String nt (JBool b) = Inr (if b then ''true'' else ''false'')"
| "js_String nt (JNum n) = Inr (nt n)"
| "js_String nt (JStr s) = Inr s"
| "js_String nt (JArr xs) = js_join nt xs"
| "js_String nt (JObj kvs) =
     (if map_of kvs ''toString'' = None then Inr ''[object Object]'' else Inl not_primitive)"
| "js_join nt [] = Inr []"
| "js_join nt (x # xs) =
     (case (if x = JNull then Inr [] else js_String nt x) of
        Inl err \<Rightarrow> Inl err
      | Inr s \<Rightarrow>
          if xs = [] then Inr s
          else (case js_join nt xs of Inl err \<Rightarrow> Inl err | Inr t \<Rightarrow> Inr (s @ '','' @ t)))"

text \<open>\<open>s.includes(sub)\<close> on strings.\<close>

fun str_includes :: "string \<Rightarrow> string \<Rightarrow> bool" where
  "str_includes [] sub = (sub = [])"
| "str_includes (c # s) sub = (take (length sub) (c # s) = sub \<or> str_includes s sub)"

text \<open>Object spread and property assignment on an object literal: a key already present
  keeps its place and takes the new value.\<close>

fun assign :: "('k \<times> 'v) list \<Rightarrow> 'k \<Rightarrow> 'v \<Rightarrow> ('k \<times> 'v) list" where
  "assign [] k v = [(k, v)]"
| "assign ((k', v') # rest) k v = (if k' = k then (k, v) # rest else (k', v') # assign rest k v)"

definition spread :: "('k \<times> 'v) list \<Rightarrow> ('k \<times> 'v) list \<Rightarrow> ('k \<times> 'v) list" where
  "spread base extra = foldl (\<lambda>acc kv. assign acc (fst kv) (snd kv)) base extra"

section \<open>The platform: requests, responses, the upstream call\<close>

text \<open>
  A stream ends by being closed or by failing with an error. A response body is
  \<open>null\<close>, a text, the JSON text of a value (\<open>JSON.stringify(obj)\<close>, kept as the value), or
  a byte stream: the chunks its reader receives, in order, and how it ends.
\<close>

datatype stream_end = Closed | Errored js_error

datatype body = Null_body | Text_body string | Json_body json | Stream_body "string list" stream_end

type_synonym headers = "(string \<times> string) list"

record response =
  status :: nat
  headers :: headers
  body :: body

text \<open>
  \<open>new Response(body, {status, headers})\<close>. The constructor of the Fetch standard
  throws a RangeError for a status outside 200..599 and a TypeError for a body that is
  not \<open>null\<close> together with a null-body status (101, 204, 205, 304); an empty string is
  a body. The texts of the two errors are the runtime's.
\<close>

definition new_Response :: "body \<Rightarrow> nat \<Rightarrow> headers \<Rightarrow> js_error + response" where
  "new_Response b st hs =
     (if st < 200 \<or> 599 < st then
        Inl (Js_error ''RangeError'' ''The status provided is outside the range [200, 599].'')
      else if b \<noteq> Null_body \<and> st \<in> {101, 204, 205, 304} then
        Inl (Js_error ''TypeError'' ''Response with null body status cannot have body'')
      else Inr \<lparr>status = st, headers = hs, body = b\<rparr>)"

text \<open>Header names are case-insensitive: a lookup compares lower-cased names.\<close>

definition to_lower :: "char \<Rightarrow> char" where
  "to_lower c =
     (case map_of (zip ''ABCDEFGHIJKLMNOPQRSTUVWXYZ'' ''abcdefghijklmnopqrstuvwxyz'') c of
        None \<Rightarrow> c
      | Some l \<Rightarrow> l)"

definition header_get :: "headers \<Rightarrow> string \<Rightarrow> string option" where
  "header_get hs name = map_of (map (\<lambda>kv. (map to_lower (fst kv), snd kv)) hs) (map to_lower name)"

text \<open>The inbound request: its method, its \<open>content-type\<close> header
  (\<open>req.headers.get('content-type')\<close>), and what \<open>await req.json()\<close> yields.\<close>

record request =
  req_method :: string
  req_content_type :: "string option"
  req_json :: "js_error + json"

text \<open>
  The outbound call. Its JSON body is the list of properties of the object given to
  \<open>JSON.stringify\<close>; a property is a JSON value, a fractional literal such as \<open>0.7\<close>, or
  \<open>User_text v\<close>, the one-element input
  \<open>[{role: "user", content: [{type: "text", text: JSON.stringify(v)}]}]\<close>. The signal is either an \<open>AbortController\<close> aborted by a timer
  or \<open>AbortSignal.timeout(ms)\<close>.
\<close>

datatype field = J json | Num rat | User_text json

datatype signal = Abort_after nat | Timeout_signal nat

record fetch_request =
  fr_url :: string
  fr_authorization :: string
  fr_body :: "(string \<times> field) list"
  fr_signal :: "signal option"

text \<open>
  The body stream of an upstream response as the network delivers it: each chunk with
  the time (milliseconds after the call was issued) at which it arrives, the time at
  which the stream ends, and how it ends. The upstream response: status and body stream
  (\<open>None\<close> for a \<open>null\<close> body).
\<close>

record stream =
  st_chunks :: "(nat \<times> string) list"
  st_ends_at :: nat
  st_ending :: stream_end

record upstream =
  up_status :: nat
  up_body :: "stream option"

definition up_ok :: "upstream \<Rightarrow> bool" where
  "up_ok u = (200 \<le> up_status u \<and> up_status u \<le> 299)"

text \<open>
  What the network does with a call: after so many milliseconds the response headers
  arrive, or the transport fails.
\<close>

datatype net_reply = Reply nat upstream | Transport_failure nat js_error

fun settle_time :: "net_reply \<Rightarrow> nat" where
  "settle_time (Reply t u) = t"
| "settle_time (Transport_failure t e) = t"

text \<open>
  The process and the world around one request: the credential
  \<open>process.env.OPENAI_API_KEY\<close>, the clock (\<open>new Date().toISOString()\<close>), whether
  \<open>AbortSignal.timeout\<close> exists, the network, \<open>JSON.parse\<close> (\<open>None\<close> when it throws), the
  message of the error an aborted call rejects with, the comparison
  \<open>ToNumber(s) > n\<close> on strings, and how a number prints.
\<close>

record env =
  api_key :: "string option"
  now_iso :: string
  has_timeout :: bool
  net :: "fetch_request \<Rightarrow> net_reply"
  json_parse :: "string \<Rightarrow> json option"
  abort_message :: string
  str_num_gt :: "string \<Rightarrow> int \<Rightarrow> bool"
  number_text :: "int \<Rightarrow> string"

text \<open>The deadline of a signal and the error its expiry raises: an \<open>AbortError\<close> for the
  controller, a \<open>TimeoutError\<close> for \<open>AbortSignal.timeout\<close>.\<close>

fun deadline :: "signal \<Rightarrow> nat" where
  "deadline (Abort_after d) = d"
| "deadline (Timeout_signal d) = d"

fun abort_error :: "env \<Rightarrow> signal \<Rightarrow> js_error" where
  "abort_error e (Abort_after d) = Js_error ''AbortError'' (abort_message e)"
| "abort_error e (Timeout_signal d) = Js_error ''TimeoutError'' (abort_message e)"

text \<open>
  \<open>await fetch(url, {..., signal})\<close>: the call settles as the network says when that
  happens strictly before the deadline of its signal; otherwise it is aborted and rejects
  with the signal's error. Without a signal the call waits for the network.
\<close>

definition fetch :: "env \<Rightarrow> fetch_request \<Rightarrow> js_error + upstream" where
  "fetch e rq =
     (let settled = (case net e rq of Reply t u \<Rightarrow> Inr u | Transport_failure t err \<Rightarrow> Inl err)
      in case fr_signal rq of
           None \<Rightarrow> settled
         | Some sg \<Rightarrow>
             if settle_time (net e rq) < deadline sg then settled else Inl (abort_error e sg))"

text \<open>
  What a reader of the body stream receives while the signal \<open>sig\<close> of the call is still
  armed (\<open>None\<close>: no signal, or its timer was cleared): a stream that ends before the
  deadline is received as the network delivers it; otherwise the reader receives the
  chunks that arrive before the deadline and then the signal's error.
\<close>

definition observe :: "env \<Rightarrow> signal option \<Rightarrow> stream \<Rightarrow> string list \<times> stream_end" where
  "observe e sig s =
     (case sig of
        None \<Rightarrow> (map snd (st_chunks s), st_ending s)
      | Some sg \<Rightarrow>
          if st_ends_at s < deadline sg then (map snd (st_chunks s), st_ending s)
          else (map snd (takeWhile (\<lambda>c. fst c < deadline sg) (st_chunks s)),
                Errored (abort_error e sg)))"

text \<open>\<open>await upstream.text()\<close>: the whole body as one text, or the error the stream ends
  with; a \<open>null\<close> body reads as the empty text.\<close>

definition up_text :: "env \<Rightarrow> signal option \<Rightarrow> upstream \<Rightarrow> js_error + string" where
  "up_text e sig u =
     (case up_body u of
        None \<Rightarrow> Inr []
      | Some s \<Rightarrow>
          (case snd (observe e sig s) of
             Closed \<Rightarrow> Inr (concat (fst (observe e sig s)))
           | Errored err \<Rightarrow> Inl err))"

text \<open>\<open>new Response(upstream.body, ...)\<close>: the response body is the upstream's stream, read
  by the caller under the same signal.\<close>

definition relay_stream :: "env \<Rightarrow> signal option \<Rightarrow> upstream \<Rightarrow> body" where
  "relay_stream e sig u =
     (case up_body u of
        None \<Rightarrow> Null_body
      | Some s \<Rightarrow> Stream_body (fst (observe e sig s)) (snd (observe e sig s)))"

text \<open>\<open>!apiKey\<close>: the variable is unset or empty.\<close>

definition key_missing :: "string option \<Rightarrow> bool" where
  "key_missing k = (case k of None \<Rightarrow> True | Some s \<Rightarrow> s = [])"

definition stringify_body :: "json option \<Rightarrow> body" where
  "stringify_body obj = (case obj of None \<Rightarrow> Null_body | Some v \<Rightarrow> Json_body v)"

definition error_obj :: "string \<Rightarrow> json" where
  "error_obj msg = JObj [(''error'', JStr msg)]"

text \<open>\<open>data?.error?.message || text || fallback\<close>, as a template literal prints it.\<close>

definition error_detail ::
  "(int \<Rightarrow> string) \<Rightarrow> json option \<Rightarrow> string \<Rightarrow> string \<Rightarrow> js_error + string" where
  "error_detail nt data text fallback =
     (let rest = (if text \<noteq> [] then text else fallback)
      in case opt_chain (opt_chain data ''error'') ''message'' of
           None \<Rightarrow> Inr rest
         | Some m \<Rightarrow> if truthy m then js_String nt m else Inr rest)"

text \<open>The properties of an object literal as \<open>JSON.stringify\<close> keeps them: a property
  whose value is \<open>undefined\<close> is dropped.\<close>

fun defined_props :: "(string \<times> 'v option) list \<Rightarrow> (string \<times> 'v) list" where
  "defined_props [] = []"
| "defined_props ((k, None) # rest) = defined_props rest"
| "defined_props ((k, Some v) # rest) = (k, v) # defined_props rest"

text \<open>\<open>typeof v === 'string'\<close> of a value that may be \<open>undefined\<close>; \<open>list.includes(v)\<close>
  and \<open>set.has(v)\<close> on strings (only an equal string is found); a value interpolated in
  a template literal, in general and where it is already known to be a string; an error
  text interpolated; the credential as \<open>${apiKey}\<close> prints it.\<close>

definition is_string_opt :: "json option \<Rightarrow> bool" where
  "is_string_opt v = (case v of None \<Rightarrow> False | Some x \<Rightarrow> is_string x)"

definition in_strings :: "json option \<Rightarrow> string list \<Rightarrow> bool" where
  "in_strings v xs = (case v of Some (JStr s) \<Rightarrow> s \<in> set xs | _ \<Rightarrow> False)"

definition template :: "(int \<Rightarrow> string) \<Rightarrow> json option \<Rightarrow> js_error + string" where
  "template nt v = (case v of None \<Rightarrow> Inr ''undefined'' | Some x \<Rightarrow> js_String nt x)"

definition string_value :: "json option \<Rightarrow> string" where
  "string_value v = (case v of Some (JStr s) \<Rightarrow> s | _ \<Rightarrow> [])"

definition template_text :: "string option \<Rightarrow> string" where
  "template_text v = (case v of None \<Rightarrow> ''null'' | Some s \<Rightarrow> s)"

definition key_text :: "string option \<Rightarrow> string" where
  "key_text k = (case k of None \<Rightarrow> ''undefined'' | Some s \<Rightarrow> s)"

text \<open>\<open>body ?? {}\<close> and \<open>payload || {}\<close>.\<close>

definition nullish_default :: "json \<Rightarrow> json" where
  "nullish_default b = (if b = JNull then JObj [] else b)"

definition falsy_default :: "json \<Rightarrow> json" where
  "falsy_default b = (if truthy b then b else JObj [])"

section \<open>\<open>src/api/chat.js\<close>\<close>

definition jsonResponse :: "json option \<Rightarrow> nat \<Rightarrow> headers \<Rightarrow> js_error + response" where
  "jsonResponse obj st extraHeaders =
     new_Response (stringify_body obj) st
       (spread [(''content-type'', ''application/json; charset=utf-8''),
                (''access-control-allow-origin'', ''*'')] extraHeaders)"

text \<open>The loop of \<open>validateMessages\<close>, from index \<open>i\<close> on.\<close>

fun validate_entries :: "nat \<Rightarrow> json list \<Rightarrow> string option" where
  "validate_entries i [] = None"
| "validate_entries i (msg # rest) =
     (if \<not> truthy msg \<or> \<not> typeof_object msg then
        Some (''Message at index '' @ string_of_nat i @ '' must be an object'')
      else if \<not> truthy_opt (js_get msg ''role'') \<or> \<not> is_string_opt (js_get msg ''role'') then
        Some (''Message at index '' @ string_of_nat i @ '' must have a '' @ [CHR 0x27] @ ''role''
              @ [CHR 0x27] @ '' string'')
      else if \<not> truthy_opt (js_get msg ''content'') \<or> \<not> is_string_opt (js_get msg ''content'') then
        Some (''Message at index '' @ string_of_nat i @ '' must have a '' @ [CHR 0x27] @ ''content''
              @ [CHR 0x27] @ '' string'')
      else if \<not> in_strings (js_get msg ''role'') [''system'', ''user'', ''assistant''] then
        Some (''Message at index '' @ string_of_nat i @ '' has invalid role '' @ [CHR 0x27]
              @ string_value (js_get msg ''role'') @ [CHR 0x27])
      else validate_entries (Suc i) rest)"

definition validateMessages :: "json option \<Rightarrow> string option" where
  "validateMessages messages =
     (case messages of
        Some (JArr ms) \<Rightarrow>
          if length ms = 0 then Some ''Messages array cannot be empty''
          else if length ms > 100 then Some ''Too many messages (max 100)''
          else validate_entries 0 ms
      | _ \<Rightarrow> Some ''Messages must be an array'')"

definition validModels :: "string list" where
  "validModels = [''gpt-4'', ''gpt-4-turbo'', ''gpt-4-mini'', ''gpt-3.5-turbo'', ''gpt-4o'', ''gpt-4.1-mini'']"

definition validateModel :: "json \<Rightarrow> bool" where
  "validateModel model = in_strings (Some model) validModels"

definition corsHeaders :: headers where
  "corsHeaders =
     [(''access-control-allow-origin'', ''*''),
      (''access-control-allow-methods'', ''POST, GET, OPTIONS''),
      (''access-control-allow-headers'', ''content-type, authorization, x-requested-with'')]"

text \<open>Lines 171--191 and 229--249: the upstream response once its text is read. The
  text is read after \<open>clearTimeout(timeoutId)\<close>, so no deadline applies to the reading.\<close>

definition relay_upstream :: "env \<Rightarrow> upstream \<Rightarrow> string \<Rightarrow> js_error + response" where
  "relay_upstream e up responseText =
     (if responseText \<noteq> [] \<and> json_parse e responseText = None then
        jsonResponse (Some (error_obj ''Invalid response from AI service'')) 502 []
      else
        let responseData = (if responseText \<noteq> [] then json_parse e responseText else Some JNull)
        in if \<not> up_ok up then
             (case error_detail (number_text e) responseData responseText
                     (''HTTP '' @ string_of_nat (up_status up)) of
                Inl err \<Rightarrow> Inl err
              | Inr errorDetail \<Rightarrow>
                  jsonResponse (Some (error_obj (''AI service error: '' @ errorDetail))) 502 [])
           else jsonResponse responseData 200 [])"

text \<open>The \<open>catch (fetchError)\<close> of both paths.\<close>

definition catch_fetch :: "js_error + response \<Rightarrow> js_error + response" where
  "catch_fetch attempt =
     (case attempt of
        Inr r \<Rightarrow> Inr r
      | Inl fetchError \<Rightarrow>
          if err_name fetchError = ''AbortError''
          then jsonResponse (Some (error_obj ''Request timeout'')) 408 []
          else jsonResponse (Some (error_obj ''Network error'')) 503 [])"

definition completions_request :: "string \<Rightarrow> json \<Rightarrow> json option \<Rightarrow> fetch_request" where
  "completions_request apiKey model messages =
     \<lparr>fr_url = ''https://api.openai.com/v1/chat/completions'',
      fr_authorization = ''Bearer '' @ apiKey,
      fr_body = defined_props [(''model'', Some (J model)), (''messages'', map_option J messages),
                               (''stream'', Some (J (JBool False)))],
      fr_signal = Some (Abort_after 30000)\<rparr>"

definition completions_path ::
  "env \<Rightarrow> string \<Rightarrow> json \<Rightarrow> json option \<Rightarrow> (js_error + response) \<times> fetch_request list" where
  "completions_path e apiKey model messages =
     (let rq = completions_request apiKey model messages;
          attempt = (case fetch e rq of
                       Inl err \<Rightarrow> Inl err
                     | Inr up \<Rightarrow> (case up_text e None up of
                                    Inl err \<Rightarrow> Inl err
                                  | Inr responseText \<Rightarrow> relay_upstream e up responseText))
      in (catch_fetch attempt, [rq]))"

text \<open>\<open>messages.map(msg => ({role: msg.role, content: [{type: "text", text: msg.content}]}))\<close>;
  \<open>map\<close> is a method of arrays only, and reading a property of a \<open>null\<close> entry throws.\<close>

definition responses_input :: "json \<Rightarrow> js_error + json" where
  "responses_input msg =
     (if msg = JNull then Inl (null_read ''role'')
      else Inr (JObj (defined_props
             [(''role'', js_get msg ''role''),
              (''content'', Some (JArr [JObj (defined_props
                 [(''type'', Some (JStr ''text'')), (''text'', js_get msg ''content'')])]))])))"

fun map_inputs :: "json list \<Rightarrow> js_error + json list" where
  "map_inputs [] = Inr []"
| "map_inputs (msg # rest) =
     (case responses_input msg of
        Inl err \<Rightarrow> Inl err
      | Inr x \<Rightarrow> (case map_inputs rest of Inl err \<Rightarrow> Inl err | Inr xs \<Rightarrow> Inr (x # xs)))"

definition messages_map :: "json option \<Rightarrow> js_error + json list" where
  "messages_map messages =
     (case messages of
        Some (JArr ms) \<Rightarrow> map_inputs ms
      | _ \<Rightarrow> Inl (Js_error ''TypeError'' ''messages.map is not a function''))"

definition responses_request :: "string \<Rightarrow> json \<Rightarrow> json list \<Rightarrow> json option \<Rightarrow> fetch_request" where
  "responses_request apiKey model inputs previous_response_id =
     \<lparr>fr_url = ''https://api.openai.com/v1/responses'',
      fr_authorization = ''Bearer '' @ apiKey,
      fr_body = spread [(''model'', J model), (''input'', J (JArr inputs))]
                  (if truthy_opt previous_response_id
                   then defined_props [(''previous_response_id'', map_option J previous_response_id)]
                   else []),
      fr_signal = Some (Abort_after 30000)\<rparr>"

definition responses_path ::
  "env \<Rightarrow> string \<Rightarrow> json \<Rightarrow> json option \<Rightarrow> json option \<Rightarrow> (js_error + response) \<times> fetch_request list" where
  "responses_path e apiKey model messages previous_response_id =
     (case messages_map messages of
        Inl err \<Rightarrow> (catch_fetch (Inl err), [])
      | Inr inputs \<Rightarrow>
          let rq = responses_request apiKey model inputs previous_response_id;
              attempt = (case fetch e rq of
                           Inl err \<Rightarrow> Inl err
                         | Inr up \<Rightarrow> (case up_text e None up of
                                        Inl err \<Rightarrow> Inl err
                                      | Inr responseText \<Rightarrow> relay_upstream e up responseText))
          in (catch_fetch attempt, [rq]))"

text \<open>The body of the outer \<open>try\<close>, from the method check to the dispatch.\<close>

definition handler_try :: "env \<Rightarrow> request \<Rightarrow> (js_error + response) \<times> fetch_request list" where
  "handler_try e req =
     (if req_method req = ''OPTIONS'' then
        (new_Response Null_body 204 (spread corsHeaders [(''access-control-max-age'', ''86400'')]), [])
      else if req_method req = ''GET'' then
        (jsonResponse (Some (JObj [(''ok'', JBool True),
            (''message'', JStr ''Chat endpoint is operational. Use POST for requests.''),
            (''timestamp'', JStr (now_iso e))])) 200 [], [])
      else if req_method req \<noteq> ''POST'' then
        (jsonResponse (Some (error_obj ''Method not allowed'')) 405 [], [])
      else if \<not> (case req_content_type req of None \<Rightarrow> False
                  | Some contentType \<Rightarrow> str_includes contentType ''application/json'') then
        (jsonResponse (Some (error_obj ''Content-Type must be application/json'')) 415 [], [])
      else if key_missing (api_key e) then
        (jsonResponse (Some (error_obj ''Server configuration error'')) 500 [], [])
      else
        case req_json req of
          Inl parseError \<Rightarrow> (jsonResponse (Some (error_obj ''Invalid JSON in request body'')) 400 [], [])
        | Inr parsed \<Rightarrow>
            let b = nullish_default parsed;
                messages = js_get b ''messages'';
                model = (case js_get b ''model'' of None \<Rightarrow> JStr ''gpt-4-mini'' | Some m \<Rightarrow> m);
                useResponsesApi = (case js_get b ''useResponsesApi'' of None \<Rightarrow> JBool False | Some u \<Rightarrow> u);
                previous_response_id = js_get b ''previous_response_id'';
                messageValidationError = validateMessages messages
            in if (case messageValidationError of None \<Rightarrow> False | Some err \<Rightarrow> err \<noteq> []) then
                 (jsonResponse (Some (error_obj (''Invalid messages: '' @ template_text messageValidationError))) 400 [], [])
               else if \<not> validateModel model then
                 (case js_String (number_text e) model of
                    Inl err \<Rightarrow> (Inl err, [])
                  | Inr printed \<Rightarrow>
                      (jsonResponse (Some (error_obj (''Unsupported model: '' @ printed))) 400 [], []))
               else if \<not> truthy useResponsesApi then
                 completions_path e (key_text (api_key e)) model messages
               else responses_path e (key_text (api_key e)) model messages previous_response_id)"

text \<open>The handler: the outer \<open>catch\<close> turns whatever was thrown into a 500. A result
  \<open>Inl\<close> is the handler's promise rejecting: no response is produced.\<close>

definition handler :: "env \<Rightarrow> request \<Rightarrow> (js_error + response) \<times> fetch_request list" where
  "handler e req =
     (case handler_try e req of
        (Inr r, calls) \<Rightarrow> (Inr r, calls)
      | (Inl error, calls) \<Rightarrow> (jsonResponse (Some (error_obj ''Internal server error'')) 500 [], calls))"


section \<open>\<open>src/unnamed/part_000\<close>\<close>

text \<open>\<open>AbortSignal.timeout ? AbortSignal.timeout(ms) : undefined\<close>.\<close>

definition timeout_if_available :: "env \<Rightarrow> nat \<Rightarrow> signal option" where
  "timeout_if_available e ms = (if has_timeout e then Some (Timeout_signal ms) else None)"

text \<open>\<open>e?.message || fallback\<close>.\<close>

definition message_or :: "js_error \<Rightarrow> string \<Rightarrow> string" where
  "message_or err fallback = (if err_message err \<noteq> [] then err_message err else fallback)"

definition preflight_headers :: headers where
  "preflight_headers =
     [(''access-control-allow-origin'', ''*''),
      (''access-control-allow-methods'', ''POST, GET, OPTIONS''),
      (''access-control-allow-headers'', ''content-type, authorization''),
      (''access-control-max-age'', ''86400'')]"

text \<open>The helper \<open>json\<close> of part_000 and of the first file of part_002.\<close>

definition json_resp :: "json option \<Rightarrow> nat \<Rightarrow> headers \<Rightarrow> js_error + response" where
  "json_resp obj st extraHeaders =
     new_Response (stringify_body obj) st
       (spread [(''content-type'', ''application/json; charset=utf-8''),
                (''access-control-allow-origin'', ''*'')] extraHeaders)"

text \<open>\<open>let data = null; try { data = text ? JSON.parse(text) : null; } catch {}\<close>.\<close>

definition parse_or_null :: "env \<Rightarrow> string \<Rightarrow> json" where
  "parse_or_null e text =
     (if text \<noteq> [] then (case json_parse e text of None \<Rightarrow> JNull | Some v \<Rightarrow> v) else JNull)"

text \<open>Lines 72--80 and 104--112: the upstream response, read (under the signal of the
  call) and relayed.\<close>

definition relay_part000 :: "env \<Rightarrow> signal option \<Rightarrow> upstream \<Rightarrow> js_error + response" where
  "relay_part000 e sig up =
     (case up_text e sig up of
        Inl err \<Rightarrow> Inl err
      | Inr text \<Rightarrow>
          let data = parse_or_null e text
          in if \<not> up_ok up then
               (case error_detail (number_text e) (Some data) text
                       (''Upstream HTTP '' @ string_of_nat (up_status up)) of
                  Inl err \<Rightarrow> Inl err
                | Inr detail \<Rightarrow> json_resp (Some (error_obj (''OpenAI error: '' @ detail))) 502 [])
             else json_resp (Some data) 200 [])"

definition call_part000 :: "env \<Rightarrow> fetch_request \<Rightarrow> (js_error + response) \<times> fetch_request list" where
  "call_part000 e rq =
     (case fetch e rq of
        Inl err \<Rightarrow> (Inl err, [rq])
      | Inr up \<Rightarrow> (relay_part000 e (fr_signal rq) up, [rq]))"

definition handler_try_part000 :: "env \<Rightarrow> request \<Rightarrow> (js_error + response) \<times> fetch_request list" where
  "handler_try_part000 e req =
     (let method = req_method req
      in if method = ''OPTIONS'' then (new_Response Null_body 204 preflight_headers, [])
         else if method = ''GET'' then
           (json_resp (Some (JObj [(''ok'', JBool True),
               (''message'', JStr ''chat endpoint is live. use POST.'')])) 200 [], [])
         else if method \<noteq> ''POST'' then (json_resp (Some (error_obj ''Method not allowed'')) 405 [], [])
         else if key_missing (api_key e) then
           (json_resp (Some (error_obj ''OPENAI_API_KEY is not set'')) 500 [], [])
         else
           case req_json req of
             Inl parseError \<Rightarrow> (json_resp (Some (error_obj ''Invalid JSON body'')) 400 [], [])
           | Inr parsed \<Rightarrow>
               let b = nullish_default parsed;
                   model = (case js_get b ''model'' of None \<Rightarrow> JStr ''gpt-4.1-mini'' | Some m \<Rightarrow> m);
                   useResponsesApi = (case js_get b ''useResponsesApi'' of None \<Rightarrow> JBool False | Some u \<Rightarrow> u);
                   previous_response_id = js_get b ''previous_response_id''
               in (case js_get b ''messages'' of
                    Some (JArr ms) \<Rightarrow>
                      (if \<not> truthy useResponsesApi then
                        call_part000 e
                          \<lparr>fr_url = ''https://api.openai.com/v1/chat/completions'',
                           fr_authorization = ''Bearer '' @ key_text (api_key e),
                           fr_body = [(''model'', J model), (''messages'', J (JArr ms))],
                           fr_signal = timeout_if_available e 30000\<rparr>
                      else
                        call_part000 e
                          \<lparr>fr_url = ''https://api.openai.com/v1/responses'',
                           fr_authorization = ''Bearer '' @ key_text (api_key e),
                           fr_body = spread [(''model'', J model), (''input'', User_text (JArr ms))]
                             (if truthy_opt previous_response_id
                              then defined_props [(''previous_response_id'', map_option J previous_response_id)]
                              else []),
                           fr_signal = timeout_if_available e 30000\<rparr>)
                  | _ \<Rightarrow>
                      (json_resp (Some (error_obj
                         ''messages must be an array of Chat Completions-style messages'')) 400 [], [])))"

definition handler_part000 :: "env \<Rightarrow> request \<Rightarrow> (js_error + response) \<times> fetch_request list" where
  "handler_part000 e req =
     (case handler_try_part000 e req of
        (Inr r, calls) \<Rightarrow> (Inr r, calls)
      | (Inl err, calls) \<Rightarrow>
          (json_resp (Some (error_obj (message_or err ''Unknown server error''))) 500 [], calls))"

section \<open>\<open>src/unnamed/part_002\<close>, first file\<close>

text \<open>\<open>req.method || "GET"\<close>.\<close>

definition method_or_get :: "string \<Rightarrow> string" where
  "method_or_get m = (if m = [] then ''GET'' else m)"

definition ALLOWED_MODELS_part002a :: "string list" where
  "ALLOWED_MODELS_part002a = [''gpt-4.1-mini'', ''gpt-4.1'', ''gpt-4o-mini'']"

text \<open>\<open>let data; try { data = text ? JSON.parse(text) : null; } catch {}\<close>: \<open>data\<close> stays
  \<open>undefined\<close> when the parse throws.\<close>

definition parse_or_undefined :: "env \<Rightarrow> string \<Rightarrow> json option" where
  "parse_or_undefined e text = (if text \<noteq> [] then json_parse e text else Some JNull)"

definition relay_part002a :: "env \<Rightarrow> signal option \<Rightarrow> upstream \<Rightarrow> js_error + response" where
  "relay_part002a e sig up =
     (case up_text e sig up of
        Inl err \<Rightarrow> Inl err
      | Inr text \<Rightarrow>
          let data = parse_or_undefined e text
          in if \<not> up_ok up then
               (case error_detail (number_text e) data text
                       (''Upstream HTTP '' @ string_of_nat (up_status up)) of
                  Inl err \<Rightarrow> Inl err
                | Inr detail \<Rightarrow> json_resp (Some (error_obj (''OpenAI error: '' @ detail))) 502 [])
             else json_resp data 200 [])"

definition handler_try_part002a :: "env \<Rightarrow> request \<Rightarrow> (js_error + response) \<times> fetch_request list" where
  "handler_try_part002a e req =
     (let method = method_or_get (req_method req)
      in if method = ''OPTIONS'' then (new_Response Null_body 204 preflight_headers, [])
         else if method = ''GET'' then
           (json_resp (Some (JObj [(''ok'', JBool True),
               (''message'', JStr ''chat endpoint is live. use POST.'')])) 200 [], [])
         else if method \<noteq> ''POST'' then (json_resp (Some (error_obj ''Method not allowed'')) 405 [], [])
         else if key_missing (api_key e) then
           (json_resp (Some (error_obj ''OPENAI_API_KEY is not set'')) 500 [], [])
         else
           case req_json req of
             Inl parseError \<Rightarrow> (json_resp (Some (error_obj ''Invalid JSON body'')) 400 [], [])
           | Inr parsed \<Rightarrow>
               let p = falsy_default parsed;
                   requestedModel = js_get p ''model''
               in (case js_get p ''messages'' of
                    Some (JArr ms) \<Rightarrow>
                      (let model = (if in_strings requestedModel ALLOWED_MODELS_part002a
                                   then requestedModel else Some (JStr ''gpt-4.1-mini''));
                          rq = \<lparr>fr_url = ''https://api.openai.com/v1/chat/completions'',
                                fr_authorization = ''Bearer '' @ key_text (api_key e),
                                fr_body = defined_props [(''model'', map_option J model),
                                                         (''messages'', Some (J (JArr ms)))],
                                fr_signal = timeout_if_available e 30000\<rparr>
                      in (case fetch e rq of
                            Inl err \<Rightarrow> (Inl err, [rq])
                          | Inr up \<Rightarrow> (relay_part002a e (fr_signal rq) up, [rq])))
                  | _ \<Rightarrow> (json_resp (Some (error_obj ''messages must be an array'')) 400 [], [])))"

definition handler_part002a :: "env \<Rightarrow> request \<Rightarrow> (js_error + response) \<times> fetch_request list" where
  "handler_part002a e req =
     (case handler_try_part002a e req of
        (Inr r, calls) \<Rightarrow> (Inr r, calls)
      | (Inl err, calls) \<Rightarrow>
          (json_resp (Some (error_obj (message_or err ''Unknown server error''))) 500 [], calls))"


section \<open>\<open>src/unnamed/part_001\<close>: the streaming handler with a fixed model\<close>

text \<open>The helper \<open>response(body, status, extraHeaders)\<close>: an object is sent as JSON,
  anything else as the text \<open>String(body || '')\<close>.\<close>

definition response_part001 :: "env \<Rightarrow> json \<Rightarrow> nat \<Rightarrow> headers \<Rightarrow> js_error + response" where
  "response_part001 e b st extraHeaders =
     (let isJson = (typeof_object b \<and> b \<noteq> JNull);
          contentType = (if isJson then ''application/json'' else ''text/plain'');
          hs = spread [(''Content-Type'', contentType), (''Access-Control-Allow-Origin'', ''*'')]
                 extraHeaders
      in if isJson then new_Response (Json_body b) st hs
         else if \<not> truthy b then new_Response (Text_body []) st hs
         else (case js_String (number_text e) b of
                 Inl err \<Rightarrow> Inl err
               | Inr content \<Rightarrow> new_Response (Text_body content) st hs))"

definition stream_headers :: headers where
  "stream_headers =
     [(''Content-Type'', ''text/event-stream''),
      (''Cache-Control'', ''no-cache, no-transform''),
      (''Connection'', ''keep-alive''),
      (''Access-Control-Allow-Origin'', ''*'')]"

text \<open>Lines 81--89: the detail of an upstream error.\<close>

definition error_data_part001 :: "env \<Rightarrow> signal option \<Rightarrow> upstream \<Rightarrow> json" where
  "error_data_part001 e sig up =
     (case up_text e sig up of
        Inl err \<Rightarrow> JObj [(''message'', JStr ''Error parsing OpenAI error response.'')]
      | Inr text \<Rightarrow>
          if text \<noteq> [] then
            (case json_parse e text of
               None \<Rightarrow> JObj [(''message'', JStr ''Error parsing OpenAI error response.'')]
             | Some v \<Rightarrow> v)
          else JObj [(''message'', JStr ''Unknown upstream error.'')])"

definition detail_part001 :: "(int \<Rightarrow> string) \<Rightarrow> json \<Rightarrow> nat \<Rightarrow> js_error + string" where
  "detail_part001 nt data st =
     (if data = JNull then Inl (null_read ''error'')
      else
        let a = opt_chain (js_get data ''error'') ''message'';
            b = js_get data ''message''
        in if truthy_opt a then template nt a
           else if truthy_opt b then template nt b
           else Inr (''Upstream HTTP '' @ string_of_nat st))"

definition handler_try_part001 ::
  "env \<Rightarrow> request \<Rightarrow> string \<Rightarrow> (js_error + response) \<times> fetch_request list" where
  "handler_try_part001 e req method =
     (if method = ''GET'' then
        (response_part001 e (JObj [(''ok'', JBool True),
            (''message'', JStr ''Chat streaming endpoint is live. Use POST.'')]) 200 [], [])
      else if method \<noteq> ''POST'' then (response_part001 e (error_obj ''Method not allowed'') 405 [], [])
      else if key_missing (api_key e) then
        (response_part001 e
           (error_obj ''OPENAI_API_KEY is not set in Vercel environment variables'') 500 [], [])
      else
        case req_json req of
          Inl parseError \<Rightarrow> (response_part001 e (error_obj ''Invalid JSON body'') 400 [], [])
        | Inr parsed \<Rightarrow>
            (case js_get (falsy_default parsed) ''messages'' of
               Some (JArr (m # ms)) \<Rightarrow>
                 (let rq = \<lparr>fr_url = ''https://api.openai.com/v1/chat/completions'',
                            fr_authorization = ''Bearer '' @ key_text (api_key e),
                            fr_body = [(''model'', J (JStr ''gpt-3.5-turbo'')),
                                       (''messages'', J (JArr (m # ms))),
                                       (''stream'', J (JBool True))],
                            fr_signal = timeout_if_available e 60000\<rparr>
                  in case fetch e rq of
                       Inl err \<Rightarrow> (Inl err, [rq])
                     | Inr up \<Rightarrow>
                         if \<not> up_ok up \<or> up_body up = None then
                           (case detail_part001 (number_text e)
                                   (error_data_part001 e (fr_signal rq) up) (up_status up) of
                              Inl err \<Rightarrow> (Inl err, [rq])
                            | Inr detail \<Rightarrow>
                                (response_part001 e (error_obj (''OpenAI error: '' @ detail)) 502 [], [rq]))
                         else (new_Response (relay_stream e (fr_signal rq) up) 200 stream_headers,
                               [rq]))
             | _ \<Rightarrow> (response_part001 e (error_obj ''messages must be a non-empty array'') 400 [], [])))"

text \<open>The preflight is answered before the \<open>try\<close>: what it throws leaves the handler.\<close>

definition handler_part001 :: "env \<Rightarrow> request \<Rightarrow> (js_error + response) \<times> fetch_request list" where
  "handler_part001 e req =
     (let method = method_or_get (req_method req)
      in if method = ''OPTIONS'' then
           (response_part001 e JNull 204
              [(''Access-Control-Allow-Methods'', ''POST, GET, OPTIONS''),
               (''Access-Control-Allow-Headers'', ''content-type, authorization, accept''),
               (''Access-Control-Allow-Origin'', ''*'')], [])
         else
           case handler_try_part001 e req method of
             (Inr r, calls) \<Rightarrow> (Inr r, calls)
           | (Inl err, calls) \<Rightarrow>
               (response_part001 e (error_obj
                  (message_or err ''Unknown server error during request processing'')) 500 [], calls))"

section \<open>\<open>src/unnamed/part_002\<close>, second file: streaming with \<open>validateRequest\<close>\<close>

definition ALLOWED_MODELS_part002b :: "string list" where
  "ALLOWED_MODELS_part002b = [''gpt-4o'', ''gpt-4-turbo'', ''gpt-3.5-turbo'']"

definition MAX_MESSAGE_LENGTH :: int where
  "MAX_MESSAGE_LENGTH = 500"

definition REQUEST_TIMEOUT_part002b :: nat where
  "REQUEST_TIMEOUT_part002b = 60000"

definition createJsonResponse :: "json option \<Rightarrow> nat \<Rightarrow> headers \<Rightarrow> js_error + response" where
  "createJsonResponse obj st extraHeaders =
     new_Response (stringify_body obj) st
       (spread [(''content-type'', ''application/json; charset=utf-8''),
                (''access-control-allow-origin'', ''*'')] extraHeaders)"

text \<open>
  The comparison \<open>v > n\<close> with a number on the right: a number is compared as it is,
  \<open>undefined\<close> is \<open>NaN\<close>, \<open>null\<close> and booleans are 0 and 1, a string goes through
  \<open>ToNumber\<close>. An array is first converted to a string (which may throw). An object
  without an own \<open>toString\<close> converts to \<open>[object Object]\<close>, which is \<open>NaN\<close>; with an
  own \<open>toString\<close> no conversion yields a primitive and the comparison throws.
\<close>

fun js_gt ::
  "(string \<Rightarrow> int \<Rightarrow> bool) \<Rightarrow> (int \<Rightarrow> string) \<Rightarrow> json option \<Rightarrow> int \<Rightarrow> js_error + bool" where
  "js_gt sgt nt None n = Inr False"
| "js_gt sgt nt (Some (JNum k)) n = Inr (n < k)"
| "js_gt sgt nt (Some JNull) n = Inr (n < 0)"
| "js_gt sgt nt (Some (JBool b)) n = Inr (n < (if b then 1 else 0))"
| "js_gt sgt nt (Some (JStr s)) n = Inr (sgt s n)"
| "js_gt sgt nt (Some (JArr xs)) n =
     (case js_String nt (JArr xs) of Inl err \<Rightarrow> Inl err | Inr s \<Rightarrow> Inr (sgt s n))"
| "js_gt sgt nt (Some (JObj kvs)) n =
     (if map_of kvs ''toString'' = None then Inr False else Inl not_primitive)"

text \<open>The test of the loop of \<open>validateRequest\<close> on one message,
  \<open>message.content && message.content.length > MAX_MESSAGE_LENGTH\<close>: reading \<open>content\<close> of
  a \<open>null\<close> entry throws, and so may the comparison.\<close>

definition length_test ::
  "(string \<Rightarrow> int \<Rightarrow> bool) \<Rightarrow> (int \<Rightarrow> string) \<Rightarrow> json \<Rightarrow> js_error + bool" where
  "length_test sgt nt message =
     (if message = JNull then Inl (null_read ''content'')
      else if \<not> truthy_opt (js_get message ''content'') then Inr False
      else js_gt sgt nt (opt_chain (js_get message ''content'') ''length'') MAX_MESSAGE_LENGTH)"

text \<open>The loop \<open>for (const message of messages)\<close>: whether some message has a content
  longer than the maximum; the first test that throws ends the loop.\<close>

fun content_too_long ::
  "(string \<Rightarrow> int \<Rightarrow> bool) \<Rightarrow> (int \<Rightarrow> string) \<Rightarrow> json list \<Rightarrow> js_error + bool" where
  "content_too_long sgt nt [] = Inr False"
| "content_too_long sgt nt (message # rest) =
     (case length_test sgt nt message of
        Inl err \<Rightarrow> Inl err
      | Inr True \<Rightarrow> Inr True
      | Inr False \<Rightarrow> content_too_long sgt nt rest)"

text \<open>The result of \<open>validateRequest\<close>: \<open>{error, status}\<close> or \<open>{messages, model, error: null}\<close>.
  Both error texts are non-empty, so \<open>if (validation.error)\<close> holds exactly of the first.\<close>

datatype validation = Invalid string nat | Valid "json list" json

definition validateRequest_part002b :: "env \<Rightarrow> json \<Rightarrow> js_error + validation" where
  "validateRequest_part002b e payload =
     (let p = falsy_default payload;
          requestedModel = js_get p ''model''
      in case js_get p ''messages'' of
           Some (JArr (m # ms)) \<Rightarrow>
             (case content_too_long (str_num_gt e) (number_text e) (m # ms) of
                Inl err \<Rightarrow> Inl err
              | Inr True \<Rightarrow>
                  Inr (Invalid (''Message content exceeds maximum length of ''
                         @ string_of_int MAX_MESSAGE_LENGTH @ '' characters'') 400)
              | Inr False \<Rightarrow>
                  Inr (Valid (m # ms)
                         (if in_strings requestedModel ALLOWED_MODELS_part002b
                          then (case requestedModel of Some r \<Rightarrow> r | None \<Rightarrow> JNull)
                          else JStr ''gpt-3.5-turbo'')))
         | _ \<Rightarrow> Inr (Invalid ''messages must be a non-empty array'' 400))"

definition createOpenAIRequest_part002b ::
  "string \<Rightarrow> json \<Rightarrow> json list \<Rightarrow> signal option \<Rightarrow> fetch_request" where
  "createOpenAIRequest_part002b apiKey model messages sig =
     \<lparr>fr_url = ''https://api.openai.com/v1/chat/completions'',
      fr_authorization = ''Bearer '' @ apiKey,
      fr_body = [(''model'', J model), (''messages'', J (JArr messages)), (''stream'', J (JBool True)),
                 (''temperature'', Num (7 / 10)), (''max_tokens'', J (JNum 1000))],
      fr_signal = sig\<rparr>"

definition handleCORS :: "js_error + response" where
  "handleCORS =
     new_Response Null_body 204
       [(''access-control-allow-origin'', ''*''),
        (''access-control-allow-methods'', ''POST, GET, OPTIONS, DELETE''),
        (''access-control-allow-headers'', ''content-type, authorization, x-requested-with''),
        (''access-control-max-age'', ''86400'')]"

definition handleHealthCheck_part002b :: "env \<Rightarrow> js_error + response" where
  "handleHealthCheck_part002b e =
     createJsonResponse (Some (JObj
       [(''ok'', JBool True),
        (''message'', JStr ''chat endpoint is live and supports streaming. use POST.''),
        (''timestamp'', JStr (now_iso e)),
        (''features'', JObj
           [(''allowed_models'', JArr (map JStr ALLOWED_MODELS_part002b)),
            (''max_message_length'', JNum MAX_MESSAGE_LENGTH),
            (''timeout'', JNum (int REQUEST_TIMEOUT_part002b))])])) 200 []"

text \<open>\<open>handleError(error, status = 500)\<close>.\<close>

definition handleError_part002b :: "env \<Rightarrow> js_error \<Rightarrow> nat \<Rightarrow> js_error + response" where
  "handleError_part002b e error st =
     createJsonResponse (Some (JObj
       [(''error'', JStr (message_or error ''Unknown server error'')),
        (''timestamp'', JStr (now_iso e))])) st []"

text \<open>\<open>new Error(message)\<close>.\<close>

definition new_Error :: "string \<Rightarrow> js_error" where
  "new_Error msg = Js_error ''Error'' msg"

definition handler_try_part002b ::
  "env \<Rightarrow> request \<Rightarrow> string \<Rightarrow> (js_error + response) \<times> fetch_request list" where
  "handler_try_part002b e req method =
     (if method = ''OPTIONS'' then (handleCORS, [])
      else if method = ''GET'' then (handleHealthCheck_part002b e, [])
      else if method \<noteq> ''POST'' then (createJsonResponse (Some (error_obj ''Method not allowed'')) 405 [], [])
      else if key_missing (api_key e) then
        (handleError_part002b e (new_Error ''OPENAI_API_KEY is not set'') 500, [])
      else
        case req_json req of
          Inl parseError \<Rightarrow> (handleError_part002b e (new_Error ''Invalid JSON body'') 400, [])
        | Inr payload \<Rightarrow>
            (case validateRequest_part002b e payload of
               Inl err \<Rightarrow> (Inl err, [])
             | Inr (Invalid msg st) \<Rightarrow> (handleError_part002b e (new_Error msg) st, [])
             | Inr (Valid messages model) \<Rightarrow>
                 (if \<not> has_timeout e then
                   (Inl (Js_error ''TypeError'' ''AbortSignal.timeout is not a function''), [])
                 else
                   let rq = createOpenAIRequest_part002b (key_text (api_key e)) model messages
                              (Some (Timeout_signal REQUEST_TIMEOUT_part002b))
                   in case fetch e rq of
                        Inl err \<Rightarrow> (Inl err, [rq])
                      | Inr up \<Rightarrow>
                          if \<not> up_ok up \<or> up_body up = None then
                            (let text = (case up_text e (fr_signal rq) up of
                                           Inl err \<Rightarrow> [] | Inr t \<Rightarrow> t);
                                 data = parse_or_null e text
                             in case error_detail (number_text e) (Some data) text
                                       (''Upstream HTTP '' @ string_of_nat (up_status up)) of
                                  Inl err \<Rightarrow> (Inl err, [rq])
                                | Inr detail \<Rightarrow>
                                    (handleError_part002b e (new_Error (''OpenAI error: '' @ detail)) 502,
                                     [rq]))
                          else (new_Response (relay_stream e (fr_signal rq) up) 200 stream_headers,
                                [rq]))))"

definition handler_part002b :: "env \<Rightarrow> request \<Rightarrow> (js_error + response) \<times> fetch_request list" where
  "handler_part002b e req =
     (case handler_try_part002b e req (method_or_get (req_method req)) of
        (Inr r, calls) \<Rightarrow> (Inr r, calls)
      | (Inl error, calls) \<Rightarrow>
          if err_name error = ''TimeoutError'' \<or> err_name error = ''AbortError''
          then (handleError_part002b e (new_Error ''Request timeout'') 408, calls)
          else (handleError_part002b e error 500, calls))"


section \<open>\<open>src/scripts/app.js\<close>: buffered with \<open>validateRequest\<close> and metadata\<close>

text \<open>The request counter of this variant is only logged; logging is not part of the
  handler's result.\<close>

definition ALLOWED_MODELS_app :: "string list" where
  "ALLOWED_MODELS_app = [''gpt-4.1-mini'', ''gpt-4.1'', ''gpt-4o-mini'']"

definition REQUEST_TIMEOUT_app :: nat where
  "REQUEST_TIMEOUT_app = 30000"

definition createResponse :: "json option \<Rightarrow> nat \<Rightarrow> headers \<Rightarrow> js_error + response" where
  "createResponse obj st extraHeaders =
     new_Response (stringify_body obj) st
       (spread [(''content-type'', ''application/json; charset=utf-8''),
                (''access-control-allow-origin'', ''*'')] extraHeaders)"

definition validateRequest_app :: "env \<Rightarrow> json \<Rightarrow> js_error + validation" where
  "validateRequest_app e payload =
     (let p = falsy_default payload;
          requestedModel = js_get p ''model''
      in case js_get p ''messages'' of
           Some (JArr ms) \<Rightarrow>
             (case content_too_long (str_num_gt e) (number_text e) ms of
                Inl err \<Rightarrow> Inl err
              | Inr True \<Rightarrow>
                  Inr (Invalid (''Message content exceeds maximum length of ''
                         @ string_of_int MAX_MESSAGE_LENGTH @ '' characters'') 400)
              | Inr False \<Rightarrow>
                  Inr (Valid ms
                         (if in_strings requestedModel ALLOWED_MODELS_app
                          then (case requestedModel of Some r \<Rightarrow> r | None \<Rightarrow> JNull)
                          else JStr ''gpt-4.1-mini'')))
         | _ \<Rightarrow> Inr (Invalid ''messages must be an array'' 400))"

definition createOpenAIRequest_app ::
  "string \<Rightarrow> json \<Rightarrow> json list \<Rightarrow> signal option \<Rightarrow> fetch_request" where
  "createOpenAIRequest_app apiKey model messages sig =
     \<lparr>fr_url = ''https://api.openai.com/v1/chat/completions'',
      fr_authorization = ''Bearer '' @ apiKey,
      fr_body = [(''model'', J model), (''messages'', J (JArr messages)),
                 (''temperature'', Num (7 / 10)), (''max_tokens'', J (JNum 1000))],
      fr_signal = sig\<rparr>"

text \<open>\<open>handleOpenAIResponse\<close>: an error text with status 502, or the parsed data. The body
  is read under the signal of the call.\<close>

definition handleOpenAIResponse ::
  "env \<Rightarrow> signal option \<Rightarrow> upstream \<Rightarrow> js_error + (string + json)" where
  "handleOpenAIResponse e sig up =
     (case up_text e sig up of
        Inl err \<Rightarrow> Inl err
      | Inr text \<Rightarrow>
          let data = parse_or_null e text
          in if \<not> up_ok up then
               (case error_detail (number_text e) (Some data) text
                       (''Upstream HTTP '' @ string_of_nat (up_status up)) of
                  Inl err \<Rightarrow> Inl err
                | Inr detail \<Rightarrow> Inr (Inl (''OpenAI error: '' @ detail)))
             else Inr (Inr data))"

definition handleHealthCheck_app :: "env \<Rightarrow> js_error + response" where
  "handleHealthCheck_app e =
     createResponse (Some (JObj
       [(''ok'', JBool True),
        (''message'', JStr ''chat endpoint is live. use POST.''),
        (''timestamp'', JStr (now_iso e)),
        (''features'', JObj
           [(''allowed_models'', JArr (map JStr ALLOWED_MODELS_app)),
            (''max_message_length'', JNum MAX_MESSAGE_LENGTH),
            (''timeout'', JNum (int REQUEST_TIMEOUT_app))])])) 200 []"

definition handleError_app :: "env \<Rightarrow> js_error \<Rightarrow> nat \<Rightarrow> js_error + response" where
  "handleError_app e error st =
     createResponse (Some (JObj
       [(''error'', JStr (message_or error ''Unknown server error'')),
        (''timestamp'', JStr (now_iso e))])) st []"

text \<open>The own enumerable properties that \<open>{...data}\<close> copies: those of an object, the
  indexed elements of an array, the indexed characters of a string, none otherwise.\<close>

fun spread_props :: "json \<Rightarrow> (string \<times> json) list" where
  "spread_props (JObj kvs) = kvs"
| "spread_props (JArr xs) = zip (map string_of_nat [0..<length xs]) xs"
| "spread_props (JStr s) = zip (map string_of_nat [0..<length s]) (map (\<lambda>c. JStr [c]) s)"
| "spread_props v = []"

definition handler_try_app ::
  "env \<Rightarrow> request \<Rightarrow> string \<Rightarrow> (js_error + response) \<times> fetch_request list" where
  "handler_try_app e req method =
     (if method = ''OPTIONS'' then (handleCORS, [])
      else if method = ''GET'' then (handleHealthCheck_app e, [])
      else if method \<noteq> ''POST'' then (createResponse (Some (error_obj ''Method not allowed'')) 405 [], [])
      else if key_missing (api_key e) then
        (handleError_app e (new_Error ''OPENAI_API_KEY is not set'') 500, [])
      else
        case req_json req of
          Inl parseError \<Rightarrow> (handleError_app e (new_Error ''Invalid JSON body'') 400, [])
        | Inr payload \<Rightarrow>
            (case validateRequest_app e payload of
               Inl err \<Rightarrow> (Inl err, [])
             | Inr (Invalid msg st) \<Rightarrow> (handleError_app e (new_Error msg) st, [])
             | Inr (Valid messages model) \<Rightarrow>
                 (let rq = createOpenAIRequest_app (key_text (api_key e)) model messages
                             (timeout_if_available e REQUEST_TIMEOUT_app)
                  in case fetch e rq of
                       Inl err \<Rightarrow> (Inl err, [rq])
                     | Inr up \<Rightarrow>
                         (case handleOpenAIResponse e (fr_signal rq) up of
                            Inl err \<Rightarrow> (Inl err, [rq])
                          | Inr (Inl msg) \<Rightarrow> (handleError_app e (new_Error msg) 502, [rq])
                          | Inr (Inr data) \<Rightarrow>
                              (createResponse (Some (JObj (assign (spread_props data) ''_metadata''
                                 (JObj [(''model_used'', model),
                                        (''timestamp'', JStr (now_iso e)),
                                        (''message_count'', JNum (int (length messages)))])))) 200 [],
                               [rq])))))"

definition handler_app :: "env \<Rightarrow> request \<Rightarrow> (js_error + response) \<times> fetch_request list" where
  "handler_app e req =
     (case handler_try_app e req (method_or_get (req_method req)) of
        (Inr r, calls) \<Rightarrow> (Inr r, calls)
      | (Inl error, calls) \<Rightarrow>
          if err_name error = ''TimeoutError'' \<or> err_name error = ''AbortError''
          then (handleError_app e (new_Error ''Request timeout'') 408, calls)
          else (handleError_app e error 500, calls))"


section \<open>Concrete requests and environments\<close>

text \<open>Inputs on which the handlers are run below: a one-message conversation, upstreams
  that answer with \<open>{}\<close>, with two server-sent events (within 20 milliseconds, or the
  second after 70 seconds) or with a text that is not JSON, and a network whose response
  headers arrive after a given time. Of the texts these upstreams send only \<open>{}\<close> is
  JSON; \<open>JSON.parse\<close> throws on the others. No example compares a string with a number,
  and the numbers of the examples are small, so they print in plain decimal.\<close>

definition user_message :: json where
  "user_message = JObj [(''role'', JStr ''user''), (''content'', JStr ''hi'')]"

definition closed_stream :: "(nat \<times> string) list \<Rightarrow> nat \<Rightarrow> stream" where
  "closed_stream cs t = \<lparr>st_chunks = cs, st_ends_at = t, st_ending = Closed\<rparr>"

definition json_upstream :: upstream where
  "json_upstream = \<lparr>up_status = 200, up_body = Some (closed_stream [(10, ''{}'')] 10)\<rparr>"

definition sse_upstream :: upstream where
  "sse_upstream =
     \<lparr>up_status = 200,
      up_body = Some (closed_stream [(10, ''data: one''), (20, ''data: two'')] 20)\<rparr>"

definition long_upstream :: upstream where
  "long_upstream =
     \<lparr>up_status = 200,
      up_body = Some (closed_stream [(10, ''data: one''), (70000, ''data: two'')] 70000)\<rparr>"

definition garbled_upstream :: upstream where
  "garbled_upstream = \<lparr>up_status = 200, up_body = Some (closed_stream [(10, ''Bad Gateway'')] 10)\<rparr>"

definition empty_upstream :: upstream where
  "empty_upstream = \<lparr>up_status = 200, up_body = Some (closed_stream [] 10)\<rparr>"

definition answer_after :: "nat \<Rightarrow> upstream \<Rightarrow> fetch_request \<Rightarrow> net_reply" where
  "answer_after t u rq = Reply t u"

definition parse_example :: "string \<Rightarrow> json option" where
  "parse_example s = (if s = ''{}'' then Some (JObj []) else None)"

definition never_gt :: "string \<Rightarrow> int \<Rightarrow> bool" where
  "never_gt s n = False"

definition example_env :: env where
  "example_env =
     \<lparr>api_key = Some ''sk-test'', now_iso = ''2025-01-01T00:00:00.000Z'', has_timeout = True,
      net = answer_after 10 json_upstream, json_parse = parse_example,
      abort_message = ''The operation was aborted'', str_num_gt = never_gt,
      number_text = string_of_int\<rparr>"

definition stream_env :: env where
  "stream_env = example_env\<lparr>net := answer_after 10 sse_upstream\<rparr>"

definition long_env :: env where
  "long_env = example_env\<lparr>net := answer_after 10 long_upstream\<rparr>"

definition garbled_env :: env where
  "garbled_env = example_env\<lparr>net := answer_after 10 garbled_upstream\<rparr>"

definition empty_env :: env where
  "empty_env = example_env\<lparr>net := answer_after 10 empty_upstream\<rparr>"

definition slow_env :: env where
  "slow_env = example_env\<lparr>net := answer_after 70000 sse_upstream\<rparr>"

definition no_key_env :: env where
  "no_key_env = example_env\<lparr>api_key := None\<rparr>"

definition post_request :: "json \<Rightarrow> request" where
  "post_request b =
     \<lparr>req_method = ''POST'', req_content_type = Some ''application/json'', req_json = Inr b\<rparr>"

definition options_request :: request where
  "options_request =
     \<lparr>req_method = ''OPTIONS'', req_content_type = None,
      req_json = Inl (Js_error ''SyntaxError'' ''Unexpected end of JSON input'')\<rparr>"

definition hello_body :: json where
  "hello_body = JObj [(''messages'', JArr [user_message])]"

definition plain_post_request :: request where
  "plain_post_request =
     \<lparr>req_method = ''POST'', req_content_type = None, req_json = Inr hello_body\<rparr>"

definition empty_content_body :: json where
  "empty_content_body =
     JObj [(''messages'', JArr [JObj [(''role'', JStr ''user''), (''content'', JStr [])]])]"

definition other_model_body :: json where
  "other_model_body = JObj [(''messages'', JArr [user_message]), (''model'', JStr ''gpt-5'')]"

definition many_messages_body :: json where
  "many_messages_body = JObj [(''messages'', JArr (user_message # replicate 100 user_message))]"

definition role_missing_body :: json where
  "role_missing_body = JObj [(''messages'', JArr [JObj [(''content'', JStr [])]])]"

definition long_second_body :: json where
  "long_second_body =
     JObj [(''messages'', JArr [user_message,
             JObj [(''role'', JStr ''user''), (''content'', JStr (replicate 501 (CHR ''a'')))]])]"

definition long_content_body :: json where
  "long_content_body =
     JObj [(''messages'', JArr [JObj [(''role'', JStr ''user''),
                                      (''content'', JStr (replicate 501 (CHR ''a'')))]])]"

text \<open>A response carries the CORS header.\<close>

definition has_cors :: "response \<Rightarrow> bool" where
  "has_cors r = (header_get (headers r) ''access-control-allow-origin'' = Some ''*'')"

section \<open>Shared lemmas\<close>

subsection \<open>Responses\<close>

lemma new_Response_Inr:
  "new_Response b st hs = Inr r \<Longrightarrow> status r = st \<and> headers r = hs \<and> body r = b"
  by (auto simp: new_Response_def split: if_splits)

lemma new_Response_ok:
  "200 \<le> st \<Longrightarrow> st \<le> 599 \<Longrightarrow> st \<notin> {204, 205, 304} \<Longrightarrow>
   new_Response b st hs = Inr \<lparr>status = st, headers = hs, body = b\<rparr>"
  by (auto simp: new_Response_def)

lemma jsonResponse_Inr:
  "jsonResponse obj st hs = Inr r \<Longrightarrow> status r = st \<and> body r = stringify_body obj"
  unfolding jsonResponse_def by (drule new_Response_Inr) simp

lemma jsonResponse_ok:
  "200 \<le> st \<Longrightarrow> st \<le> 599 \<Longrightarrow> st \<notin> {204, 205, 304} \<Longrightarrow>
   jsonResponse obj st [] =
     Inr \<lparr>status = st,
          headers = [(''content-type'', ''application/json; charset=utf-8''),
                     (''access-control-allow-origin'', ''*'')],
          body = stringify_body obj\<rparr>"
  by (simp add: jsonResponse_def new_Response_ok spread_def)

lemma json_resp_ok:
  "200 \<le> st \<Longrightarrow> st \<le> 599 \<Longrightarrow> st \<notin> {204, 205, 304} \<Longrightarrow>
   json_resp obj st [] =
     Inr \<lparr>status = st,
          headers = [(''content-type'', ''application/json; charset=utf-8''),
                     (''access-control-allow-origin'', ''*'')],
          body = stringify_body obj\<rparr>"
  by (simp add: json_resp_def new_Response_ok spread_def)

lemma createJsonResponse_ok:
  "200 \<le> st \<Longrightarrow> st \<le> 599 \<Longrightarrow> st \<notin> {204, 205, 304} \<Longrightarrow>
   createJsonResponse obj st [] =
     Inr \<lparr>status = st,
          headers = [(''content-type'', ''application/json; charset=utf-8''),
                     (''access-control-allow-origin'', ''*'')],
          body = stringify_body obj\<rparr>"
  by (simp add: createJsonResponse_def new_Response_ok spread_def)

lemma createResponse_ok:
  "200 \<le> st \<Longrightarrow> st \<le> 599 \<Longrightarrow> st \<notin> {204, 205, 304} \<Longrightarrow>
   createResponse obj st [] =
     Inr \<lparr>status = st,
          headers = [(''content-type'', ''application/json; charset=utf-8''),
                     (''access-control-allow-origin'', ''*'')],
          body = stringify_body obj\<rparr>"
  by (simp add: createResponse_def new_Response_ok spread_def)

subsection \<open>The upstream call\<close>

lemma fetch_in_time:
  "net e rq = Reply t up \<Longrightarrow> fr_signal rq = Some (Abort_after d) \<Longrightarrow> t < d \<Longrightarrow>
   fetch e rq = Inr up"
  by (simp add: fetch_def)

lemma fetch_aborted:
  "fr_signal rq = Some (Abort_after d) \<Longrightarrow> d \<le> settle_time (net e rq) \<Longrightarrow>
   fetch e rq = Inl (Js_error ''AbortError'' (abort_message e))"
  by (simp add: fetch_def)

lemma fetch_timed_out:
  "fr_signal rq = Some (Timeout_signal d) \<Longrightarrow> d \<le> settle_time (net e rq) \<Longrightarrow>
   fetch e rq = Inl (Js_error ''TimeoutError'' (abort_message e))"
  by (simp add: fetch_def)

lemma relay_upstream_status:
  "relay_upstream e up t = Inr r \<Longrightarrow> status r = 502 \<or> status r = 200"
  by (auto simp: relay_upstream_def Let_def dest!: jsonResponse_Inr split: if_splits sum.splits)

lemma catch_fetch_status:
  "catch_fetch a = Inr r \<Longrightarrow> a = Inr r \<or> status r = 408 \<or> status r = 503"
  by (auto simp: catch_fetch_def dest!: jsonResponse_Inr split: sum.splits if_splits)

lemma completions_path_status:
  "completions_path e k m ms = (Inr r, calls) \<Longrightarrow> status r \<in> {200, 408, 502, 503}"
  by (auto simp: completions_path_def Let_def dest!: catch_fetch_status relay_upstream_status
           split: sum.splits)

lemma responses_path_status:
  "responses_path e k m ms p = (Inr r, calls) \<Longrightarrow> status r \<in> {200, 408, 502, 503}"
  by (auto simp: responses_path_def Let_def dest!: catch_fetch_status relay_upstream_status
           split: sum.splits)

subsection \<open>Validation\<close>

lemma validate_entries_append:
  "validate_entries i (xs @ ys) =
     (case validate_entries i xs of
        Some err \<Rightarrow> Some err
      | None \<Rightarrow> validate_entries (i + length xs) ys)"
  by (induction xs arbitrary: i) (simp_all split: option.splits)

text \<open>Messages that pass \<open>validateMessages\<close> are objects, so the Responses path can map
  them.\<close>

lemma validated_inputs:
  "validate_entries i ms = None \<Longrightarrow> \<exists>xs. map_inputs ms = Inr xs"
proof (induction ms arbitrary: i)
  case Nil
  then show ?case by simp
next
  case (Cons m ms)
  from Cons.prems have "m \<noteq> JNull" and "validate_entries (Suc i) ms = None"
    by (auto split: if_splits)
  with Cons.IH [of "Suc i"] show ?case by (auto simp: responses_input_def)
qed

lemma validated_messages_map:
  assumes "validateMessages messages = None"
  shows "\<exists>xs. messages_map messages = Inr xs"
proof -
  from assms obtain ms where m: "messages = Some (JArr ms)" and v: "validate_entries 0 ms = None"
    by (auto simp: validateMessages_def split: option.splits json.splits if_splits)
  from validated_inputs [OF v] m show ?thesis by (simp add: messages_map_def)
qed

text \<open>A request that passes the method, content-type, credential and parsing gates and
  whose messages the validator refuses is answered with 400 and never dispatched.\<close>

lemma handler_invalid_messages:
  assumes "req_method req = ''POST''"
    and "req_content_type req = Some ct" and "str_includes ct ''application/json''"
    and "\<not> key_missing (api_key e)"
    and "req_json req = Inr parsed"
    and "validateMessages (js_get (nullish_default parsed) ''messages'') = Some err"
    and "err \<noteq> []"
  shows "handler e req =
           (Inr \<lparr>status = 400,
                 headers = [(''content-type'', ''application/json; charset=utf-8''),
                            (''access-control-allow-origin'', ''*'')],
                 body = Json_body (error_obj (''Invalid messages: '' @ err))\<rparr>, [])"
  using assms
  by (simp add: handler_def handler_try_def Let_def jsonResponse_ok template_text_def
        stringify_body_def)

lemma validate_entries_content:
  assumes "i < length ms"
    and "validate_entries 0 (take i ms) = None"
    and "ms ! i = JObj kvs"
    and "map_of kvs ''role'' = Some (JStr role)" and "role \<noteq> []"
    and "map_of kvs ''content'' = Some (JStr []) \<or> map_of kvs ''content'' = None"
  shows "validate_entries 0 ms =
           Some (''Message at index '' @ string_of_nat i @ '' must have a '' @ [CHR 0x27]
                 @ ''content'' @ [CHR 0x27] @ '' string'')"
proof -
  have split: "take i ms @ (ms ! i) # drop (Suc i) ms = ms"
    using assms(1) by (simp add: id_take_nth_drop [symmetric])
  have len: "length (take i ms) = i" using assms(1) by simp
  have "validate_entries 0 (take i ms @ (ms ! i) # drop (Suc i) ms)
          = validate_entries (0 + length (take i ms)) ((ms ! i) # drop (Suc i) ms)"
    using assms(2) by (simp only: validate_entries_append option.case)
  then have "validate_entries 0 ms = validate_entries i ((ms ! i) # drop (Suc i) ms)"
    by (simp only: split len add_0)
  then have "validate_entries 0 ms = validate_entries i (JObj kvs # drop (Suc i) ms)"
    by (simp only: assms(3))
  then show ?thesis
    using assms(4-6) by (auto simp: truthy_opt_def is_string_opt_def)
qed

lemma validModels_default: "validateModel (JStr ''gpt-4-mini'')"
  by (simp add: validateModel_def in_strings_def validModels_def)

lemma handler_try_default_model:
  assumes "req_json req = Inr parsed"
    and "js_get (nullish_default parsed) ''model'' = None"
    and "handler_try e req = (Inr r, calls)"
    and "status r = 400"
  shows "body r \<noteq> Json_body (error_obj (''Unsupported model: '' @ x))"
  using assms
  by (auto simp: handler_try_def Let_def validModels_default stringify_body_def error_obj_def
           dest!: jsonResponse_Inr new_Response_Inr completions_path_status responses_path_status
           split: if_splits sum.splits)

lemma max_length_text: "string_of_int MAX_MESSAGE_LENGTH = ''500''"
  by (simp add: MAX_MESSAGE_LENGTH_def string_of_int_def string_of_nat.simps)

text \<open>The length loop stops at the first message whose content is too long, unless the
  test throws on an earlier entry.\<close>

lemma length_test_long:
  assumes "map_of kvs ''content'' = Some (JStr c)" and "500 < length c"
  shows "length_test sgt nt (JObj kvs) = Inr True"
  using assms by (auto simp: length_test_def truthy_opt_def opt_chain_def MAX_MESSAGE_LENGTH_def)

lemma content_too_long_hit:
  assumes "i < length ms"
    and "\<forall>j<i. \<exists>b. length_test sgt nt (ms ! j) = Inr b"
    and "ms ! i = JObj kvs"
    and "map_of kvs ''content'' = Some (JStr c)"
    and "500 < length c"
  shows "content_too_long sgt nt ms = Inr True"
  using assms
proof (induction ms arbitrary: i)
  case Nil
  then show ?case by simp
next
  case (Cons m ms)
  show ?case
  proof (cases i)
    case 0
    with Cons.prems show ?thesis by (simp add: length_test_long)
  next
    case (Suc k)
    with Cons.prems have k: "k < length ms" "ms ! k = JObj kvs"
      by auto
    have rest: "\<forall>j<k. \<exists>b. length_test sgt nt (ms ! j) = Inr b"
    proof (intro allI impI)
      fix j assume "j < k"
      then have "Suc j < i" using Suc by simp
      with Cons.prems(2) have "\<exists>b. length_test sgt nt ((m # ms) ! Suc j) = Inr b" by blast
      then show "\<exists>b. length_test sgt nt (ms ! j) = Inr b" by simp
    qed
    have "0 < i" using Suc by simp
    with Cons.prems(2) have "\<exists>b. length_test sgt nt ((m # ms) ! 0) = Inr b" by blast
    then obtain b where first: "length_test sgt nt m = Inr b" by auto
    from Cons.IH [OF k(1) rest k(2) Cons.prems(4,5)] first show ?thesis
      by (cases b) simp_all
  qed
qed

subsection \<open>The example inputs\<close>

lemma short_test: "length_test sgt nt user_message = Inr False"
  by (simp add: length_test_def user_message_def truthy_opt_def opt_chain_def
        MAX_MESSAGE_LENGTH_def)

lemma short_messages: "content_too_long sgt nt (replicate n user_message) = Inr False"
  by (induction n) (simp_all add: short_test)

lemma short_message:
  "content_too_long sgt nt (user_message # replicate n user_message) = Inr False"
  using short_messages [of sgt nt "Suc n"] by simp

lemma hello_messages:
  "js_get (falsy_default hello_body) ''messages'' = Some (JArr [user_message])"
  by (simp add: hello_body_def falsy_default_def)

lemma hello_no_model: "js_get (nullish_default hello_body) ''model'' = None"
  by (simp add: hello_body_def nullish_default_def)

lemma hello_valid_chat:
  "validateMessages (js_get (nullish_default hello_body) ''messages'') = None"
  by (simp add: hello_body_def nullish_default_def validateMessages_def user_message_def
        truthy_opt_def is_string_opt_def in_strings_def)

lemma hello_valid_part002b:
  "validateRequest_part002b e hello_body = Inr (Valid [user_message] (JStr ''gpt-3.5-turbo''))"
  by (simp add: validateRequest_part002b_def hello_body_def falsy_default_def short_test
        in_strings_def)

lemma hello_valid_app:
  "validateRequest_app e hello_body = Inr (Valid [user_message] (JStr ''gpt-4.1-mini''))"
  by (simp add: validateRequest_app_def hello_body_def falsy_default_def short_test
        in_strings_def)

subsection \<open>The CORS header\<close>

lemma cors_json_headers:
  "header_get [(''content-type'', v), (''access-control-allow-origin'', ''*'')]
     ''access-control-allow-origin'' = Some ''*''"
  by (simp add: header_get_def to_lower_def)

lemma cors_part001_headers:
  "header_get [(''Content-Type'', v), (''Access-Control-Allow-Origin'', ''*'')]
     ''access-control-allow-origin'' = Some ''*''"
  by (simp add: header_get_def to_lower_def)

lemma cors_stream_headers:
  "header_get stream_headers ''access-control-allow-origin'' = Some ''*''"
  by (simp add: header_get_def to_lower_def stream_headers_def)

lemma cors_first:
  "header_get ((''access-control-allow-origin'', ''*'') # hs) ''access-control-allow-origin''
     = Some ''*''"
  by (simp add: header_get_def to_lower_def)

lemma jsonResponse_cors: "jsonResponse obj st [] = Inr r \<Longrightarrow> has_cors r"
  unfolding jsonResponse_def
  by (drule new_Response_Inr) (simp add: has_cors_def spread_def cors_json_headers)

lemma json_resp_cors: "json_resp obj st [] = Inr r \<Longrightarrow> has_cors r"
  unfolding json_resp_def
  by (drule new_Response_Inr) (simp add: has_cors_def spread_def cors_json_headers)

lemma createJsonResponse_cors: "createJsonResponse obj st [] = Inr r \<Longrightarrow> has_cors r"
  unfolding createJsonResponse_def
  by (drule new_Response_Inr) (simp add: has_cors_def spread_def cors_json_headers)

lemma createResponse_cors: "createResponse obj st [] = Inr r \<Longrightarrow> has_cors r"
  unfolding createResponse_def
  by (drule new_Response_Inr) (simp add: has_cors_def spread_def cors_json_headers)

lemma response_part001_cors: "response_part001 e b st [] = Inr r \<Longrightarrow> has_cors r"
  by (auto simp: response_part001_def Let_def has_cors_def spread_def cors_part001_headers
           dest!: new_Response_Inr split: if_splits sum.splits)

lemma stream_cors: "new_Response b st stream_headers = Inr r \<Longrightarrow> has_cors r"
  by (drule new_Response_Inr) (simp add: has_cors_def cors_stream_headers)

lemma preflight_cors:
  "new_Response b st ((''access-control-allow-origin'', ''*'') # hs) = Inr r \<Longrightarrow> has_cors r"
  by (drule new_Response_Inr) (simp add: has_cors_def cors_first)

lemma relay_upstream_cors: "relay_upstream e up t = Inr r \<Longrightarrow> has_cors r"
  by (auto simp: relay_upstream_def Let_def dest: jsonResponse_cors split: if_splits sum.splits)

lemma catch_fetch_cors:
  "catch_fetch a = Inr r \<Longrightarrow> (\<And>r'. a = Inr r' \<Longrightarrow> has_cors r') \<Longrightarrow> has_cors r"
  by (auto simp: catch_fetch_def dest: jsonResponse_cors split: sum.splits if_splits)

lemma completions_path_cors: "completions_path e k m ms = (Inr r, calls) \<Longrightarrow> has_cors r"
  by (auto simp: completions_path_def Let_def dest: relay_upstream_cors
           elim!: catch_fetch_cors split: sum.splits)

lemma responses_path_cors: "responses_path e k m ms p = (Inr r, calls) \<Longrightarrow> has_cors r"
  by (auto simp: responses_path_def Let_def dest: relay_upstream_cors
           elim!: catch_fetch_cors split: sum.splits)

lemma handler_try_cors: "handler_try e req = (Inr r, calls) \<Longrightarrow> has_cors r"
  by (auto simp: handler_try_def Let_def corsHeaders_def spread_def
           dest: jsonResponse_cors completions_path_cors responses_path_cors preflight_cors
           split: if_splits sum.splits)

text \<open>Five of the six handlers always answer, and every answer carries the header; the
  handler of part_001 does so for every method but \<open>OPTIONS\<close>.\<close>

lemma handler_responds: "\<exists>r. fst (handler e req) = Inr r"
  by (simp add: handler_def jsonResponse_ok split: prod.splits sum.splits)

lemma handler_cors: "handler e req = (Inr r, calls) \<Longrightarrow> has_cors r"
  by (auto simp: handler_def dest: handler_try_cors jsonResponse_cors
           split: prod.splits sum.splits)

lemma handler_part000_responds: "\<exists>r. fst (handler_part000 e req) = Inr r"
  by (simp add: handler_part000_def json_resp_ok split: prod.splits sum.splits)

lemma relay_part000_cors: "relay_part000 e sig up = Inr r \<Longrightarrow> has_cors r"
  by (auto simp: relay_part000_def Let_def dest: json_resp_cors split: if_splits sum.splits)

lemma handler_part000_cors: "handler_part000 e req = (Inr r, calls) \<Longrightarrow> has_cors r"
  by (auto simp: handler_part000_def handler_try_part000_def Let_def preflight_headers_def
        call_part000_def
           dest: json_resp_cors preflight_cors relay_part000_cors
           split: if_splits sum.splits prod.splits option.splits json.splits)

lemma handler_part002a_responds: "\<exists>r. fst (handler_part002a e req) = Inr r"
  by (simp add: handler_part002a_def json_resp_ok split: prod.splits sum.splits)

lemma relay_part002a_cors: "relay_part002a e sig up = Inr r \<Longrightarrow> has_cors r"
  by (auto simp: relay_part002a_def Let_def dest: json_resp_cors split: if_splits sum.splits)

lemma handler_part002a_cors: "handler_part002a e req = (Inr r, calls) \<Longrightarrow> has_cors r"
  by (auto simp: handler_part002a_def handler_try_part002a_def Let_def preflight_headers_def
           dest: json_resp_cors preflight_cors relay_part002a_cors
           split: if_splits sum.splits prod.splits option.splits json.splits)

lemma handler_part002b_responds: "\<exists>r. fst (handler_part002b e req) = Inr r"
  by (simp add: handler_part002b_def handleError_part002b_def createJsonResponse_ok
        split: prod.splits sum.splits)

lemma handler_part002b_cors: "handler_part002b e req = (Inr r, calls) \<Longrightarrow> has_cors r"
  by (auto simp: handler_part002b_def handler_try_part002b_def Let_def handleCORS_def
        handleHealthCheck_part002b_def handleError_part002b_def
           dest: createJsonResponse_cors preflight_cors stream_cors
           split: if_splits sum.splits prod.splits validation.splits)

lemma handler_app_responds: "\<exists>r. fst (handler_app e req) = Inr r"
  by (simp add: handler_app_def handleError_app_def createResponse_ok
        split: prod.splits sum.splits)

lemma handler_app_cors: "handler_app e req = (Inr r, calls) \<Longrightarrow> has_cors r"
  by (auto simp: handler_app_def handler_try_app_def Let_def handleCORS_def
        handleHealthCheck_app_def handleError_app_def
           dest: createResponse_cors preflight_cors
           split: if_splits sum.splits prod.splits validation.splits)

lemma handler_part001_cors:
  "method_or_get (req_method req) \<noteq> ''OPTIONS'' \<Longrightarrow>
   handler_part001 e req = (Inr r, calls) \<Longrightarrow> has_cors r"
  by (auto simp: handler_part001_def handler_try_part001_def Let_def
           dest: response_part001_cors stream_cors
           split: if_splits sum.splits prod.splits option.splits json.splits list.splits)


section \<open>The claims\<close>

subsection \<open>C1: a model outside the allow-list\<close>

text \<open>
  C1, as stated, fails: \<open>src/scripts/app.js\<close> (and both files of part_002) do not reject
  a model outside the allow-list. The request below names \<open>gpt-5\<close>; the handler of
  \<open>app.js\<close> dispatches it with the default \<open>gpt-4.1-mini\<close> and answers 200.
\<close>

theorem unsupported_model_counterexample:
  "js_get other_model_body ''model'' = Some (JStr ''gpt-5'') \<and>
   \<not> in_strings (Some (JStr ''gpt-5'')) ALLOWED_MODELS_app \<and>
   handler_app example_env (post_request other_model_body) =
     (Inr \<lparr>status = 200,
           headers = [(''content-type'', ''application/json; charset=utf-8''),
                      (''access-control-allow-origin'', ''*'')],
           body = Json_body (JObj [(''_metadata'',
                    JObj [(''model_used'', JStr ''gpt-4.1-mini''),
                          (''timestamp'', JStr ''2025-01-01T00:00:00.000Z''),
                          (''message_count'', JNum 1)])])\<rparr>,
      [createOpenAIRequest_app ''sk-test'' (JStr ''gpt-4.1-mini'') [user_message]
         (Some (Timeout_signal 30000))])"
  by (simp add: other_model_body_def in_strings_def ALLOWED_MODELS_app_def handler_app_def
        handler_try_app_def method_or_get_def post_request_def example_env_def key_missing_def
        key_text_def validateRequest_app_def falsy_default_def short_test
        timeout_if_available_def REQUEST_TIMEOUT_app_def
        fetch_def createOpenAIRequest_app_def answer_after_def json_upstream_def
        handleOpenAIResponse_def up_text_def observe_def closed_stream_def parse_or_null_def
        parse_example_def up_ok_def
        createResponse_def new_Response_ok spread_def stringify_body_def Let_def)

text \<open>
  C1, amended. In \<open>src/api/chat.js\<close> a POST that passes the content-type, credential,
  body-parsing and message-validation gates and names a model outside the allow-list
  makes no upstream call; when the model can be printed in the error text (\<open>String(model)\<close>
  does not throw), the answer is 400 with the error \<open>Unsupported model: <model>\<close>. In
  \<open>src/scripts/app.js\<close>, \<open>validateRequest\<close> accepts a request whose model is outside
  the allow-list and replaces the model by the default \<open>gpt-4.1-mini\<close>.
\<close>

theorem unsupported_model_rejected:
  assumes "req_method req = ''POST''"
    and "\<not> key_missing (api_key e)"
    and "req_json req = Inr parsed"
  shows "((\<exists>ct. req_content_type req = Some ct \<and> str_includes ct ''application/json'') \<and>
          validateMessages (js_get (nullish_default parsed) ''messages'') = None \<and>
          js_get (nullish_default parsed) ''model'' = Some m \<and> \<not> validateModel m \<longrightarrow>
          snd (handler e req) = [] \<and>
          (\<forall>printed. js_String (number_text e) m = Inr printed \<longrightarrow>
             handler e req =
               (Inr \<lparr>status = 400,
                     headers = [(''content-type'', ''application/json; charset=utf-8''),
                                (''access-control-allow-origin'', ''*'')],
                     body = Json_body (error_obj (''Unsupported model: '' @ printed))\<rparr>, [])))
       \<and> (js_get (falsy_default parsed) ''messages'' = Some (JArr ms) \<and>
          content_too_long (str_num_gt e) (number_text e) ms = Inr False \<and>
          \<not> in_strings (js_get (falsy_default parsed) ''model'') ALLOWED_MODELS_app \<longrightarrow>
          validateRequest_app e parsed = Inr (Valid ms (JStr ''gpt-4.1-mini'')))"
  using assms
  by (auto simp: handler_def handler_try_def Let_def jsonResponse_ok stringify_body_def
        validateRequest_app_def split: sum.splits)

theorem unsupported_model_rejected_witness:
  "js_String (number_text example_env) (JStr ''gpt-5'') = Inr ''gpt-5'' \<and>
   handler example_env (post_request other_model_body) =
     (Inr \<lparr>status = 400,
           headers = [(''content-type'', ''application/json; charset=utf-8''),
                      (''access-control-allow-origin'', ''*'')],
           body = Json_body (error_obj ''Unsupported model: gpt-5'')\<rparr>, [])
   \<and> validateRequest_app example_env other_model_body =
       Inr (Valid [user_message] (JStr ''gpt-4.1-mini''))"
  using unsupported_model_rejected [of "post_request other_model_body" example_env
          other_model_body "JStr ''gpt-5''" "[user_message]"]
  by (simp add: post_request_def example_env_def key_missing_def other_model_body_def
        nullish_default_def falsy_default_def validateMessages_def user_message_def
        truthy_opt_def is_string_opt_def in_strings_def validateModel_def validModels_def
        ALLOWED_MODELS_app_def length_test_def opt_chain_def MAX_MESSAGE_LENGTH_def)

subsection \<open>C2: the stream is relayed\<close>

text \<open>
  C2, as stated, fails: the 60 second signal of the upstream call stays attached to the
  body stream that the handler relays. The upstream below answers 200 and sends one
  event after 10 milliseconds and a second after 70 seconds; the caller of part_001
  receives the first event and then a \<open>TimeoutError\<close>, not both events.
\<close>

theorem stream_relayed_counterexample:
  "up_ok long_upstream \<and>
   up_body long_upstream =
     Some \<lparr>st_chunks = [(10, ''data: one''), (70000, ''data: two'')], st_ends_at = 70000,
           st_ending = Closed\<rparr> \<and>
   fst (handler_part001 long_env (post_request hello_body)) =
     Inr \<lparr>status = 200, headers = stream_headers,
          body = Stream_body [''data: one'']
                   (Errored (Js_error ''TimeoutError'' ''The operation was aborted''))\<rparr>"
  by (simp add: long_upstream_def closed_stream_def up_ok_def long_env_def example_env_def
        handler_part001_def handler_try_part001_def method_or_get_def post_request_def
        hello_body_def key_missing_def key_text_def falsy_default_def timeout_if_available_def
        fetch_def answer_after_def relay_stream_def observe_def new_Response_ok Let_def)

text \<open>
  C2, amended. In the two streaming handlers (part_001 and the second file of part_002),
  when the upstream call of a valid POST resolves within the deadline with a 2xx status
  and a body stream that ends before the 60 second deadline, the handler's response has
  status 200, the headers of an event stream (\<open>content-type: text/event-stream\<close>), and
  its body delivers exactly the upstream's chunks, in order, and ends as the upstream's
  stream ends. Exactly one upstream call is made.
\<close>

theorem stream_relayed_unchanged:
  assumes "req_method req = ''POST''"
    and "\<not> key_missing (api_key e)"
    and "req_json req = Inr parsed"
    and "\<forall>rq. net e rq = Reply t up" and "t < 60000"
    and "up_ok up" and "up_body up = Some s" and "st_ends_at s < 60000"
  shows "((\<exists>m ms. js_get (falsy_default parsed) ''messages'' = Some (JArr (m # ms))) \<longrightarrow>
          fst (handler_part001 e req) =
            Inr \<lparr>status = 200, headers = stream_headers,
                 body = Stream_body (map snd (st_chunks s)) (st_ending s)\<rparr>
          \<and> length (snd (handler_part001 e req)) = 1)
       \<and> ((\<exists>ms model. validateRequest_part002b e parsed = Inr (Valid ms model)) \<and> has_timeout e \<longrightarrow>
          fst (handler_part002b e req) =
            Inr \<lparr>status = 200, headers = stream_headers,
                 body = Stream_body (map snd (st_chunks s)) (st_ending s)\<rparr>
          \<and> length (snd (handler_part002b e req)) = 1)
       \<and> header_get stream_headers ''content-type'' = Some ''text/event-stream''"
proof (intro conjI impI)
  have f: "fetch e rq = Inr up"
    if "fr_signal rq = None \<or> fr_signal rq = Some (Timeout_signal 60000)" for rq
    using assms(4,5) that by (auto simp: fetch_def)
  have resp: "new_Response (relay_stream e sig up) 200 stream_headers =
                Inr \<lparr>status = 200, headers = stream_headers,
                     body = Stream_body (map snd (st_chunks s)) (st_ending s)\<rparr>"
    if "sig = None \<or> sig = Some (Timeout_signal 60000)" for sig
    using assms(7,8) that by (auto simp: new_Response_ok relay_stream_def observe_def)
  show "header_get stream_headers ''content-type'' = Some ''text/event-stream''"
    by (simp add: header_get_def stream_headers_def to_lower_def)
  {
    assume "\<exists>m ms. js_get (falsy_default parsed) ''messages'' = Some (JArr (m # ms))"
    then obtain m ms where m: "js_get (falsy_default parsed) ''messages'' = Some (JArr (m # ms))"
      by blast
    have "\<exists>rq. handler_part001 e req =
            (Inr \<lparr>status = 200, headers = stream_headers,
                  body = Stream_body (map snd (st_chunks s)) (st_ending s)\<rparr>, [rq])"
      using assms(1-3,6,7) m
      by (simp add: handler_part001_def handler_try_part001_def method_or_get_def Let_def f resp
            timeout_if_available_def)
    then show "fst (handler_part001 e req) =
            Inr \<lparr>status = 200, headers = stream_headers,
                 body = Stream_body (map snd (st_chunks s)) (st_ending s)\<rparr>"
      and "length (snd (handler_part001 e req)) = 1" by auto
  }
  {
    assume h: "(\<exists>ms model. validateRequest_part002b e parsed = Inr (Valid ms model)) \<and> has_timeout e"
    then obtain ms model where v: "validateRequest_part002b e parsed = Inr (Valid ms model)"
      by blast
    have "\<exists>rq. handler_part002b e req =
            (Inr \<lparr>status = 200, headers = stream_headers,
                  body = Stream_body (map snd (st_chunks s)) (st_ending s)\<rparr>, [rq])"
      using assms(1-3,6,7) v h
      by (simp add: handler_part002b_def handler_try_part002b_def method_or_get_def Let_def f resp
            createOpenAIRequest_part002b_def REQUEST_TIMEOUT_part002b_def)
    then show "fst (handler_part002b e req) =
            Inr \<lparr>status = 200, headers = stream_headers,
                 body = Stream_body (map snd (st_chunks s)) (st_ending s)\<rparr>"
      and "length (snd (handler_part002b e req)) = 1" by auto
  }
qed

theorem stream_relayed_unchanged_witness:
  "up_body sse_upstream =
     Some \<lparr>st_chunks = [(10, ''data: one''), (20, ''data: two'')], st_ends_at = 20,
           st_ending = Closed\<rparr> \<and>
   fst (handler_part001 stream_env (post_request hello_body)) =
     Inr \<lparr>status = 200, headers = stream_headers,
          body = Stream_body [''data: one'', ''data: two''] Closed\<rparr>
   \<and> fst (handler_part002b stream_env (post_request hello_body)) =
     Inr \<lparr>status = 200, headers = stream_headers,
          body = Stream_body [''data: one'', ''data: two''] Closed\<rparr>"
  using stream_relayed_unchanged [of "post_request hello_body" stream_env hello_body 10
          sse_upstream "closed_stream [(10, ''data: one''), (20, ''data: two'')] 20"]
  by (simp add: post_request_def stream_env_def example_env_def key_missing_def
        hello_valid_part002b hello_messages answer_after_def sse_upstream_def up_ok_def
        closed_stream_def)

subsection \<open>C3: the deadline\<close>

text \<open>
  C3, as stated, fails: the streaming handler of part_001 attaches the 60 second deadline
  but has no case for its expiry. With an upstream that answers after 70 seconds the
  call is aborted and the handler answers 500 with the abort error's message, not 408.
\<close>

theorem deadline_counterexample:
  "settle_time (net slow_env
      \<lparr>fr_url = ''https://api.openai.com/v1/chat/completions'',
        fr_authorization = ''Bearer sk-test'',
        fr_body = [(''model'', J (JStr ''gpt-3.5-turbo'')), (''messages'', J (JArr [user_message])),
                   (''stream'', J (JBool True))],
        fr_signal = Some (Timeout_signal 60000)\<rparr>) = 70000 \<and>
   handler_part001 slow_env (post_request hello_body) =
     (Inr \<lparr>status = 500,
           headers = [(''Content-Type'', ''application/json''),
                      (''Access-Control-Allow-Origin'', ''*'')],
           body = Json_body (error_obj ''The operation was aborted'')\<rparr>,
      [\<lparr>fr_url = ''https://api.openai.com/v1/chat/completions'',
        fr_authorization = ''Bearer sk-test'',
        fr_body = [(''model'', J (JStr ''gpt-3.5-turbo'')), (''messages'', J (JArr [user_message])),
                   (''stream'', J (JBool True))],
        fr_signal = Some (Timeout_signal 60000)\<rparr>])"
  by (simp add: slow_env_def example_env_def answer_after_def
        handler_part001_def handler_try_part001_def method_or_get_def post_request_def
        hello_body_def key_missing_def key_text_def falsy_default_def timeout_if_available_def
        fetch_def response_part001_def error_obj_def message_or_def new_Response_ok spread_def
        Let_def)

text \<open>
  C3, amended. When the upstream has not answered by the deadline, the call of a valid
  POST is aborted and the answer is 408: in \<open>src/api/chat.js\<close> (30 seconds, both upstream
  paths) with the body \<open>{"error": "Request timeout"}\<close>; in the streaming handler of
  part_002 (60 seconds) and in \<open>src/scripts/app.js\<close> (30 seconds), where
  \<open>AbortSignal.timeout\<close> exists, with the body \<open>{"error": "Request timeout", "timestamp": now}\<close>.
  Exactly one upstream call was issued.
\<close>

theorem deadline_answers_408:
  assumes "req_method req = ''POST''"
    and "\<not> key_missing (api_key e)"
    and "req_json req = Inr parsed"
  shows "((\<exists>ct. req_content_type req = Some ct \<and> str_includes ct ''application/json'') \<and>
          validateMessages (js_get (nullish_default parsed) ''messages'') = None \<and>
          validateModel (case js_get (nullish_default parsed) ''model'' of
                           None \<Rightarrow> JStr ''gpt-4-mini'' | Some m \<Rightarrow> m) \<and>
          (\<forall>rq. 30000 \<le> settle_time (net e rq)) \<longrightarrow>
          fst (handler e req) =
            Inr \<lparr>status = 408,
                 headers = [(''content-type'', ''application/json; charset=utf-8''),
                            (''access-control-allow-origin'', ''*'')],
                 body = Json_body (error_obj ''Request timeout'')\<rparr>
          \<and> length (snd (handler e req)) = 1)
       \<and> ((\<exists>ms model. validateRequest_part002b e parsed = Inr (Valid ms model)) \<and> has_timeout e \<and>
          (\<forall>rq. 60000 \<le> settle_time (net e rq)) \<longrightarrow>
          fst (handler_part002b e req) =
            Inr \<lparr>status = 408,
                 headers = [(''content-type'', ''application/json; charset=utf-8''),
                            (''access-control-allow-origin'', ''*'')],
                 body = Json_body (JObj [(''error'', JStr ''Request timeout''),
                                         (''timestamp'', JStr (now_iso e))])\<rparr>
          \<and> length (snd (handler_part002b e req)) = 1)
       \<and> ((\<exists>ms model. validateRequest_app e parsed = Inr (Valid ms model)) \<and> has_timeout e \<and>
          (\<forall>rq. 30000 \<le> settle_time (net e rq)) \<longrightarrow>
          fst (handler_app e req) =
            Inr \<lparr>status = 408,
                 headers = [(''content-type'', ''application/json; charset=utf-8''),
                            (''access-control-allow-origin'', ''*'')],
                 body = Json_body (JObj [(''error'', JStr ''Request timeout''),
                                         (''timestamp'', JStr (now_iso e))])\<rparr>
          \<and> length (snd (handler_app e req)) = 1)"
proof (intro conjI impI)
  let ?r = "\<lparr>status = 408,
                 headers = [(''content-type'', ''application/json; charset=utf-8''),
                            (''access-control-allow-origin'', ''*'')],
                 body = Json_body (error_obj ''Request timeout'')\<rparr>"
  assume h: "(\<exists>ct. req_content_type req = Some ct \<and> str_includes ct ''application/json'') \<and>
          validateMessages (js_get (nullish_default parsed) ''messages'') = None \<and>
          validateModel (case js_get (nullish_default parsed) ''model'' of
                           None \<Rightarrow> JStr ''gpt-4-mini'' | Some m \<Rightarrow> m) \<and>
          (\<forall>rq. 30000 \<le> settle_time (net e rq))"
  have f1: "fetch e (completions_request k m ms) = Inl (Js_error ''AbortError'' (abort_message e))"
    for k m ms
    using h by (intro fetch_aborted [of _ 30000]) (simp_all add: completions_request_def)
  have f2: "fetch e (responses_request k m xs p) = Inl (Js_error ''AbortError'' (abort_message e))"
    for k m xs p
    using h by (intro fetch_aborted [of _ 30000]) (simp_all add: responses_request_def)
  have c: "\<exists>rq. completions_path e k m ms = (Inr ?r, [rq])" for k m ms
    by (simp add: completions_path_def Let_def f1 catch_fetch_def jsonResponse_ok stringify_body_def)
  obtain xs where xs: "messages_map (js_get (nullish_default parsed) ''messages'') = Inr xs"
    using validated_messages_map h by blast
  have r: "\<exists>rq. responses_path e k m (js_get (nullish_default parsed) ''messages'') p = (Inr ?r, [rq])"
    for k m p
    by (simp add: responses_path_def Let_def xs f2 catch_fetch_def jsonResponse_ok stringify_body_def)
  have t: "\<exists>rq. handler_try e req = (Inr ?r, [rq])"
    using assms h c r by (auto simp: handler_try_def Let_def)
  from t show "fst (handler e req) = Inr ?r" by (auto simp: handler_def)
  from t show "length (snd (handler e req)) = 1" by (auto simp: handler_def)
next
  let ?r = "\<lparr>status = 408,
                 headers = [(''content-type'', ''application/json; charset=utf-8''),
                            (''access-control-allow-origin'', ''*'')],
                 body = Json_body (JObj [(''error'', JStr ''Request timeout''),
                                         (''timestamp'', JStr (now_iso e))])\<rparr>"
  assume h: "(\<exists>ms model. validateRequest_part002b e parsed = Inr (Valid ms model)) \<and> has_timeout e \<and>
          (\<forall>rq. 60000 \<le> settle_time (net e rq))"
  then obtain ms model where v: "validateRequest_part002b e parsed = Inr (Valid ms model)" by blast
  have f: "fetch e (createOpenAIRequest_part002b k m xs (Some (Timeout_signal 60000)))
             = Inl (Js_error ''TimeoutError'' (abort_message e))" for k m xs
    using h by (intro fetch_timed_out [of _ 60000]) (simp_all add: createOpenAIRequest_part002b_def)
  have t: "\<exists>rq. handler_try_part002b e req ''POST''
                = (Inl (Js_error ''TimeoutError'' (abort_message e)), [rq])"
    using assms h v f by (simp add: handler_try_part002b_def Let_def REQUEST_TIMEOUT_part002b_def)
  then have "\<exists>rq. handler_part002b e req = (Inr ?r, [rq])"
    using assms(1)
    by (auto simp: handler_part002b_def method_or_get_def handleError_part002b_def new_Error_def
          message_or_def createJsonResponse_ok stringify_body_def)
  then show "fst (handler_part002b e req) = Inr ?r" and "length (snd (handler_part002b e req)) = 1"
    by auto
next
  let ?r = "\<lparr>status = 408,
                 headers = [(''content-type'', ''application/json; charset=utf-8''),
                            (''access-control-allow-origin'', ''*'')],
                 body = Json_body (JObj [(''error'', JStr ''Request timeout''),
                                         (''timestamp'', JStr (now_iso e))])\<rparr>"
  assume h: "(\<exists>ms model. validateRequest_app e parsed = Inr (Valid ms model)) \<and> has_timeout e \<and>
          (\<forall>rq. 30000 \<le> settle_time (net e rq))"
  then obtain ms model where v: "validateRequest_app e parsed = Inr (Valid ms model)" by blast
  have f: "fetch e (createOpenAIRequest_app k m xs (Some (Timeout_signal 30000)))
             = Inl (Js_error ''TimeoutError'' (abort_message e))" for k m xs
    using h by (intro fetch_timed_out [of _ 30000]) (simp_all add: createOpenAIRequest_app_def)
  have t: "\<exists>rq. handler_try_app e req ''POST''
                = (Inl (Js_error ''TimeoutError'' (abort_message e)), [rq])"
    using assms h v f
    by (simp add: handler_try_app_def Let_def REQUEST_TIMEOUT_app_def timeout_if_available_def)
  then have "\<exists>rq. handler_app e req = (Inr ?r, [rq])"
    using assms(1)
    by (auto simp: handler_app_def method_or_get_def handleError_app_def new_Error_def
          message_or_def createResponse_ok stringify_body_def)
  then show "fst (handler_app e req) = Inr ?r" and "length (snd (handler_app e req)) = 1"
    by auto
qed

theorem deadline_answers_408_witness:
  "fst (handler slow_env (post_request hello_body)) =
     Inr \<lparr>status = 408,
          headers = [(''content-type'', ''application/json; charset=utf-8''),
                     (''access-control-allow-origin'', ''*'')],
          body = Json_body (error_obj ''Request timeout'')\<rparr>
   \<and> fst (handler_part002b slow_env (post_request hello_body)) =
     Inr \<lparr>status = 408,
          headers = [(''content-type'', ''application/json; charset=utf-8''),
                     (''access-control-allow-origin'', ''*'')],
          body = Json_body (JObj [(''error'', JStr ''Request timeout''),
                                  (''timestamp'', JStr ''2025-01-01T00:00:00.000Z'')])\<rparr>
   \<and> fst (handler_app slow_env (post_request hello_body)) =
       fst (handler_part002b slow_env (post_request hello_body))"
  using deadline_answers_408 [of "post_request hello_body" slow_env hello_body]
  by (simp add: post_request_def slow_env_def example_env_def key_missing_def
        hello_valid_part002b hello_valid_app hello_valid_chat hello_no_model answer_after_def
        validModels_default)


subsection \<open>C4: the content length limit\<close>

text \<open>
  C4, as stated, fails: \<open>validateMessages\<close> of \<open>src/api/chat.js\<close> checks no content
  length. A message of 501 characters passes validation and is dispatched.
\<close>

theorem content_length_counterexample:
  "length (replicate 501 (CHR ''a'')) = 501 \<and>
   handler example_env (post_request long_content_body) =
     (Inr \<lparr>status = 200,
           headers = [(''content-type'', ''application/json; charset=utf-8''),
                      (''access-control-allow-origin'', ''*'')],
           body = Json_body (JObj [])\<rparr>,
      [completions_request ''sk-test'' (JStr ''gpt-4-mini'')
         (Some (JArr [JObj [(''role'', JStr ''user''),
                            (''content'', JStr (replicate 501 (CHR ''a'')))]]))])"
  by (simp add: post_request_def long_content_body_def nullish_default_def example_env_def
        handler_def handler_try_def key_missing_def key_text_def validateMessages_def
        truthy_opt_def is_string_opt_def in_strings_def completions_path_def
        validateModel_def validModels_def
        completions_request_def fetch_def answer_after_def json_upstream_def up_text_def
        observe_def closed_stream_def
        relay_upstream_def parse_example_def up_ok_def catch_fetch_def jsonResponse_ok
        stringify_body_def Let_def)

text \<open>
  C4, amended. In \<open>src/scripts/app.js\<close> and in the streaming handler of part_002, a POST
  with a configured credential whose \<open>messages\<close> array holds at some index an object with
  a string content of more than 500 characters, the length test throwing on no earlier
  entry, is answered with 400 and the error
  \<open>Message content exceeds maximum length of 500 characters\<close>, which gives the reason and
  not the index; no upstream call is made.
\<close>

theorem content_length_rejected:
  assumes "req_method req = ''POST''"
    and "\<not> key_missing (api_key e)"
    and "req_json req = Inr parsed"
    and "js_get (falsy_default parsed) ''messages'' = Some (JArr ms)"
    and "i < length ms"
    and "\<forall>j<i. \<exists>b. length_test (str_num_gt e) (number_text e) (ms ! j) = Inr b"
    and "ms ! i = JObj kvs"
    and "map_of kvs ''content'' = Some (JStr c)"
    and "500 < length c"
  shows "handler_app e req =
           (Inr \<lparr>status = 400,
                 headers = [(''content-type'', ''application/json; charset=utf-8''),
                            (''access-control-allow-origin'', ''*'')],
                 body = Json_body (JObj
                   [(''error'', JStr ''Message content exceeds maximum length of 500 characters''),
                    (''timestamp'', JStr (now_iso e))])\<rparr>, [])
         \<and> handler_part002b e req =
           (Inr \<lparr>status = 400,
                 headers = [(''content-type'', ''application/json; charset=utf-8''),
                            (''access-control-allow-origin'', ''*'')],
                 body = Json_body (JObj
                   [(''error'', JStr ''Message content exceeds maximum length of 500 characters''),
                    (''timestamp'', JStr (now_iso e))])\<rparr>, [])"
proof -
  have hit: "content_too_long (str_num_gt e) (number_text e) ms = Inr True"
    by (rule content_too_long_hit [OF assms(5-9)])
  obtain m rest where ms: "ms = m # rest" using assms(5) by (cases ms) auto
  have app: "validateRequest_app e parsed =
               Inr (Invalid ''Message content exceeds maximum length of 500 characters'' 400)"
    using assms(4) hit by (simp add: validateRequest_app_def Let_def max_length_text)
  have str: "validateRequest_part002b e parsed =
               Inr (Invalid ''Message content exceeds maximum length of 500 characters'' 400)"
    using assms(4) hit unfolding ms
    by (simp add: validateRequest_part002b_def Let_def max_length_text del: content_too_long.simps)
  have a: "handler_app e req =
           (Inr \<lparr>status = 400,
                 headers = [(''content-type'', ''application/json; charset=utf-8''),
                            (''access-control-allow-origin'', ''*'')],
                 body = Json_body (JObj
                   [(''error'', JStr ''Message content exceeds maximum length of 500 characters''),
                    (''timestamp'', JStr (now_iso e))])\<rparr>, [])"
    using assms(1-3) app
    by (simp add: handler_app_def handler_try_app_def method_or_get_def handleError_app_def
          new_Error_def message_or_def createResponse_ok stringify_body_def)
  have b: "handler_part002b e req =
           (Inr \<lparr>status = 400,
                 headers = [(''content-type'', ''application/json; charset=utf-8''),
                            (''access-control-allow-origin'', ''*'')],
                 body = Json_body (JObj
                   [(''error'', JStr ''Message content exceeds maximum length of 500 characters''),
                    (''timestamp'', JStr (now_iso e))])\<rparr>, [])"
    using assms(1-3) str
    by (simp add: handler_part002b_def handler_try_part002b_def method_or_get_def
          handleError_part002b_def new_Error_def message_or_def createJsonResponse_ok
          stringify_body_def)
  from a b show ?thesis by simp
qed

theorem content_length_rejected_witness:
  "length_test (str_num_gt example_env) (number_text example_env) user_message = Inr False \<and>
   handler_app example_env (post_request long_second_body) =
           (Inr \<lparr>status = 400,
                 headers = [(''content-type'', ''application/json; charset=utf-8''),
                            (''access-control-allow-origin'', ''*'')],
                 body = Json_body (JObj
                   [(''error'', JStr ''Message content exceeds maximum length of 500 characters''),
                    (''timestamp'', JStr ''2025-01-01T00:00:00.000Z'')])\<rparr>, [])
   \<and> handler_part002b example_env (post_request long_second_body) =
       handler_app example_env (post_request long_second_body)"
proof -
  have "handler_app example_env (post_request long_second_body) =
           (Inr \<lparr>status = 400,
                 headers = [(''content-type'', ''application/json; charset=utf-8''),
                            (''access-control-allow-origin'', ''*'')],
                 body = Json_body (JObj
                   [(''error'', JStr ''Message content exceeds maximum length of 500 characters''),
                    (''timestamp'', JStr (now_iso example_env))])\<rparr>, [])
         \<and> handler_part002b example_env (post_request long_second_body) =
           (Inr \<lparr>status = 400,
                 headers = [(''content-type'', ''application/json; charset=utf-8''),
                            (''access-control-allow-origin'', ''*'')],
                 body = Json_body (JObj
                   [(''error'', JStr ''Message content exceeds maximum length of 500 characters''),
                    (''timestamp'', JStr (now_iso example_env))])\<rparr>, [])"
    by (rule content_length_rejected [of "post_request long_second_body" example_env
          long_second_body
          "[user_message,
            JObj [(''role'', JStr ''user''), (''content'', JStr (replicate 501 (CHR ''a'')))]]" 1
          "[(''role'', JStr ''user''), (''content'', JStr (replicate 501 (CHR ''a'')))]"
          "replicate 501 (CHR ''a'')"])
       (auto simp: post_request_def example_env_def key_missing_def long_second_body_def
          falsy_default_def short_test)
  then show ?thesis by (simp add: short_test example_env_def)
qed

subsection \<open>C5: empty and oversized message arrays\<close>

text \<open>
  C5, as stated, fails: \<open>validateRequest\<close> of the streaming handler of part_002 refuses
  an empty array but has no cap on the number of messages. A request with 101 messages
  is dispatched and answered with the upstream's stream.
\<close>

theorem message_count_counterexample:
  "length (user_message # replicate 100 user_message) = 101 \<and>
   handler_part002b stream_env (post_request many_messages_body) =
     (Inr \<lparr>status = 200, headers = stream_headers,
           body = Stream_body [''data: one'', ''data: two''] Closed\<rparr>,
      [createOpenAIRequest_part002b ''sk-test'' (JStr ''gpt-3.5-turbo'')
         (user_message # replicate 100 user_message) (Some (Timeout_signal 60000))])"
  by (simp add: many_messages_body_def handler_part002b_def handler_try_part002b_def
        method_or_get_def post_request_def stream_env_def example_env_def key_missing_def
        key_text_def validateRequest_part002b_def falsy_default_def short_message
        in_strings_def REQUEST_TIMEOUT_part002b_def
        fetch_def createOpenAIRequest_part002b_def answer_after_def sse_upstream_def
        up_ok_def relay_stream_def observe_def closed_stream_def new_Response_ok Let_def
        del: content_too_long.simps)

text \<open>
  C5, amended. In \<open>src/api/chat.js\<close> a POST with a JSON content type, a configured
  credential and a parsed body whose \<open>messages\<close> array is empty or has more than 100
  entries is answered with 400 (\<open>Invalid messages: ...\<close>) and no upstream call is made. In
  the streaming handler of part_002 a POST with a configured credential whose \<open>messages\<close>
  array is empty is answered with 400 and no upstream call is made; that handler does not
  limit the number of messages.
\<close>

theorem message_count_rejected:
  assumes "req_method req = ''POST''"
    and "\<not> key_missing (api_key e)"
    and "req_json req = Inr parsed"
  shows "((\<exists>ct. req_content_type req = Some ct \<and> str_includes ct ''application/json'') \<and>
          js_get (nullish_default parsed) ''messages'' = Some (JArr ms) \<and>
          (ms = [] \<or> 100 < length ms) \<longrightarrow>
          handler e req =
            (Inr \<lparr>status = 400,
                  headers = [(''content-type'', ''application/json; charset=utf-8''),
                             (''access-control-allow-origin'', ''*'')],
                  body = Json_body (error_obj
                           (if ms = [] then ''Invalid messages: Messages array cannot be empty''
                            else ''Invalid messages: Too many messages (max 100)''))\<rparr>, []))
       \<and> (js_get (falsy_default parsed) ''messages'' = Some (JArr []) \<longrightarrow>
          handler_part002b e req =
            (Inr \<lparr>status = 400,
                  headers = [(''content-type'', ''application/json; charset=utf-8''),
                             (''access-control-allow-origin'', ''*'')],
                  body = Json_body (JObj [(''error'', JStr ''messages must be a non-empty array''),
                                          (''timestamp'', JStr (now_iso e))])\<rparr>, []))"
  using assms
  by (auto simp: handler_def handler_try_def Let_def jsonResponse_ok stringify_body_def
        validateMessages_def template_text_def
        handler_part002b_def handler_try_part002b_def method_or_get_def
        validateRequest_part002b_def handleError_part002b_def new_Error_def message_or_def
        createJsonResponse_ok)

theorem message_count_rejected_witness:
  "handler example_env (post_request many_messages_body) =
     (Inr \<lparr>status = 400,
           headers = [(''content-type'', ''application/json; charset=utf-8''),
                      (''access-control-allow-origin'', ''*'')],
           body = Json_body (error_obj ''Invalid messages: Too many messages (max 100)'')\<rparr>, [])
   \<and> handler_part002b example_env (post_request (JObj [(''messages'', JArr [])])) =
     (Inr \<lparr>status = 400,
           headers = [(''content-type'', ''application/json; charset=utf-8''),
                      (''access-control-allow-origin'', ''*'')],
           body = Json_body (JObj [(''error'', JStr ''messages must be a non-empty array''),
                                   (''timestamp'', JStr ''2025-01-01T00:00:00.000Z'')])\<rparr>, [])"
  using message_count_rejected [of "post_request many_messages_body" example_env
          many_messages_body "user_message # replicate 100 user_message"]
        message_count_rejected [of "post_request (JObj [(''messages'', JArr [])])" example_env
          "JObj [(''messages'', JArr [])]" "[]"]
  by (simp add: post_request_def example_env_def key_missing_def many_messages_body_def
        nullish_default_def falsy_default_def)

subsection \<open>C6: an upstream body that is not JSON\<close>

text \<open>
  C6, as stated, fails: the handler of part_000 swallows the parse error
  (\<open>try { ... } catch {}\<close>). A 200 upstream response whose body \<open>Bad Gateway\<close> does not parse is
  answered with 200 and the body \<open>null\<close>.
\<close>

theorem unparseable_counterexample:
  "up_ok garbled_upstream \<and>
   up_text garbled_env (Some (Timeout_signal 30000)) garbled_upstream = Inr ''Bad Gateway'' \<and>
   json_parse garbled_env ''Bad Gateway'' = None \<and>
   handler_part000 garbled_env (post_request hello_body) =
     (Inr \<lparr>status = 200,
           headers = [(''content-type'', ''application/json; charset=utf-8''),
                      (''access-control-allow-origin'', ''*'')],
           body = Json_body JNull\<rparr>,
      [\<lparr>fr_url = ''https://api.openai.com/v1/chat/completions'',
        fr_authorization = ''Bearer sk-test'',
        fr_body = [(''model'', J (JStr ''gpt-4.1-mini'')), (''messages'', J (JArr [user_message]))],
        fr_signal = Some (Timeout_signal 30000)\<rparr>])"
  by (simp add: garbled_upstream_def garbled_env_def example_env_def up_ok_def up_text_def
        observe_def closed_stream_def
        parse_example_def handler_part000_def handler_try_part000_def
        post_request_def hello_body_def key_missing_def key_text_def nullish_default_def
        call_part000_def timeout_if_available_def fetch_def answer_after_def
        relay_part000_def parse_or_null_def json_resp_ok stringify_body_def Let_def)

text \<open>The guard \<open>responseText ? JSON.parse(responseText) : null\<close> of \<open>src/api/chat.js\<close>
  keeps an empty upstream body away from the parser: a 200 with an empty body is relayed
  as 200 with the body \<open>null\<close>. This is why the amended claim speaks of a text that is not
  empty.\<close>

lemma empty_upstream_body:
  "up_text empty_env None empty_upstream = Inr [] \<and>
   fst (handler empty_env (post_request hello_body)) =
     Inr \<lparr>status = 200,
          headers = [(''content-type'', ''application/json; charset=utf-8''),
                     (''access-control-allow-origin'', ''*'')],
          body = Json_body JNull\<rparr>"
  by (simp add: empty_upstream_def empty_env_def example_env_def up_text_def up_ok_def
        observe_def closed_stream_def
        handler_def handler_try_def post_request_def key_missing_def hello_body_def
        nullish_default_def validateMessages_def user_message_def truthy_opt_def
        is_string_opt_def in_strings_def validModels_default completions_path_def
        completions_request_def fetch_def answer_after_def relay_upstream_def catch_fetch_def
        jsonResponse_ok stringify_body_def Let_def)

text \<open>
  C6, amended. In \<open>src/api/chat.js\<close>, when the upstream call of a valid POST resolves
  within the deadline and the response text is not empty and does not parse as JSON, the
  answer is 502 with the body \<open>{"error": "Invalid response from AI service"}\<close>, whatever the
  upstream status; one upstream call was made.
\<close>

theorem unparseable_upstream:
  assumes "req_method req = ''POST''"
    and "req_content_type req = Some ct" and "str_includes ct ''application/json''"
    and "\<not> key_missing (api_key e)"
    and "req_json req = Inr parsed"
    and "validateMessages (js_get (nullish_default parsed) ''messages'') = None"
    and "validateModel (case js_get (nullish_default parsed) ''model'' of
                          None \<Rightarrow> JStr ''gpt-4-mini'' | Some m \<Rightarrow> m)"
    and "\<forall>rq. net e rq = Reply t up" and "t < 30000"
    and "up_text e None up = Inr text" and "text \<noteq> []" and "json_parse e text = None"
  shows "fst (handler e req) =
           Inr \<lparr>status = 502,
                headers = [(''content-type'', ''application/json; charset=utf-8''),
                           (''access-control-allow-origin'', ''*'')],
                body = Json_body (error_obj ''Invalid response from AI service'')\<rparr>
         \<and> length (snd (handler e req)) = 1"
proof -
  let ?r = "\<lparr>status = 502,
                headers = [(''content-type'', ''application/json; charset=utf-8''),
                           (''access-control-allow-origin'', ''*'')],
                body = Json_body (error_obj ''Invalid response from AI service'')\<rparr>"
  have relay: "relay_upstream e up text = Inr ?r"
    using assms(11,12) by (simp add: relay_upstream_def jsonResponse_ok stringify_body_def)
  have f1: "fetch e (completions_request k m ms) = Inr up" for k m ms
    using assms(8,9)
    by (intro fetch_in_time [of e _ t up 30000]) (simp_all add: completions_request_def)
  have f2: "fetch e (responses_request k m xs p) = Inr up" for k m xs p
    using assms(8,9)
    by (intro fetch_in_time [of e _ t up 30000]) (simp_all add: responses_request_def)
  have c: "\<exists>rq. completions_path e k m ms = (Inr ?r, [rq])" for k m ms
    by (simp add: completions_path_def Let_def f1 assms(10) relay catch_fetch_def)
  obtain xs where xs: "messages_map (js_get (nullish_default parsed) ''messages'') = Inr xs"
    using validated_messages_map [OF assms(6)] by blast
  have r: "\<exists>rq. responses_path e k m (js_get (nullish_default parsed) ''messages'') p = (Inr ?r, [rq])"
    for k m p
    by (simp add: responses_path_def Let_def xs f2 assms(10) relay catch_fetch_def)
  have "\<exists>rq. handler_try e req = (Inr ?r, [rq])"
    using assms(1-7) c r by (simp add: handler_try_def Let_def)
  then show ?thesis by (auto simp: handler_def)
qed

theorem unparseable_upstream_witness:
  "up_text garbled_env None garbled_upstream = Inr ''Bad Gateway'' \<and>
   json_parse garbled_env ''Bad Gateway'' = None \<and>
   fst (handler garbled_env (post_request hello_body)) =
           Inr \<lparr>status = 502,
                headers = [(''content-type'', ''application/json; charset=utf-8''),
                           (''access-control-allow-origin'', ''*'')],
                body = Json_body (error_obj ''Invalid response from AI service'')\<rparr>
         \<and> length (snd (handler garbled_env (post_request hello_body))) = 1"
  using unparseable_upstream [of "post_request hello_body" "''application/json''" garbled_env
          hello_body 10 garbled_upstream "''Bad Gateway''"]
  by (simp add: post_request_def garbled_env_def example_env_def key_missing_def
        hello_valid_chat hello_no_model validModels_default answer_after_def
        garbled_upstream_def up_text_def observe_def closed_stream_def parse_example_def)

subsection \<open>C7: no credential\<close>

text \<open>
  C7, as stated, fails: \<open>src/api/chat.js\<close> checks the content type before the
  credential. Without a credential, a POST that has no JSON content type is answered
  with 415, not 500.
\<close>

theorem missing_credential_counterexample:
  "req_method plain_post_request = ''POST'' \<and> key_missing (api_key no_key_env) \<and>
   handler no_key_env plain_post_request =
     (Inr \<lparr>status = 415,
           headers = [(''content-type'', ''application/json; charset=utf-8''),
                      (''access-control-allow-origin'', ''*'')],
           body = Json_body (error_obj ''Content-Type must be application/json'')\<rparr>, [])"
  by (simp add: plain_post_request_def no_key_env_def example_env_def key_missing_def handler_def
        handler_try_def jsonResponse_ok stringify_body_def)

text \<open>
  C7, amended. In \<open>src/api/chat.js\<close>, when no credential is configured, every POST whose
  content type contains \<open>application/json\<close> is answered with 500 and the body
  \<open>{"error": "Server configuration error"}\<close>; a POST without such a content type is
  answered with 415. In both cases the handler returns a response and makes no upstream
  call.
\<close>

theorem missing_credential:
  assumes "req_method req = ''POST''" and "key_missing (api_key e)"
  shows "handler e req =
           (if (case req_content_type req of None \<Rightarrow> False
                | Some contentType \<Rightarrow> str_includes contentType ''application/json'')
            then (Inr \<lparr>status = 500,
                       headers = [(''content-type'', ''application/json; charset=utf-8''),
                                  (''access-control-allow-origin'', ''*'')],
                       body = Json_body (error_obj ''Server configuration error'')\<rparr>, [])
            else (Inr \<lparr>status = 415,
                       headers = [(''content-type'', ''application/json; charset=utf-8''),
                                  (''access-control-allow-origin'', ''*'')],
                       body = Json_body (error_obj ''Content-Type must be application/json'')\<rparr>, []))"
  using assms
  by (simp add: handler_def handler_try_def jsonResponse_ok stringify_body_def)

theorem missing_credential_witness:
  "req_method (post_request hello_body) = ''POST'' \<and> key_missing (api_key no_key_env) \<and>
   handler no_key_env (post_request hello_body) =
     (Inr \<lparr>status = 500,
           headers = [(''content-type'', ''application/json; charset=utf-8''),
                      (''access-control-allow-origin'', ''*'')],
           body = Json_body (error_obj ''Server configuration error'')\<rparr>, [])"
  using missing_credential [of "post_request hello_body" no_key_env]
  by (simp add: post_request_def no_key_env_def example_env_def key_missing_def)

subsection \<open>C8: the CORS header on every response\<close>

text \<open>
  C8. Every response is to carry \<open>access-control-allow-origin: *\<close>, the preflight
  included. Five handlers do (the lemmas on the CORS header above). The streaming handler
  of part_001 answers \<open>OPTIONS\<close> through its helper \<open>response(null, 204, ...)\<close>, which
  turns the \<open>null\<close> body into the empty string; a 204 response cannot have a body, the
  constructor throws, and since the preflight is handled before the \<open>try\<close> the handler
  produces no response at all, hence no header.
\<close>

theorem part001_preflight_throws:
  "handler_part001 e options_request =
     (Inl (Js_error ''TypeError'' ''Response with null body status cannot have body''), [])"
  by (simp add: handler_part001_def method_or_get_def options_request_def response_part001_def
        new_Response_def)

subsection \<open>C9: empty content\<close>

text \<open>
  C9, as stated, fails: the checks of \<open>validateMessages\<close> run in order and the first
  that fails decides the text. A message with the empty content and no \<open>role\<close> is
  refused with the text about the role, not with the one about the content.
\<close>

theorem empty_content_counterexample:
  "js_get (JObj [(''content'', JStr [])]) ''content'' = Some (JStr []) \<and>
   handler example_env (post_request role_missing_body) =
     (Inr \<lparr>status = 400,
           headers = [(''content-type'', ''application/json; charset=utf-8''),
                      (''access-control-allow-origin'', ''*'')],
           body = Json_body (error_obj
                    (''Invalid messages: Message at index 0 must have a '' @ [CHR 0x27]
                     @ ''role'' @ [CHR 0x27] @ '' string''))\<rparr>, [])"
  by (simp add: post_request_def example_env_def role_missing_body_def key_missing_def
        nullish_default_def handler_def handler_try_def validateMessages_def truthy_opt_def
        template_text_def jsonResponse_ok stringify_body_def string_of_nat.simps Let_def)

text \<open>
  C9, amended. In \<open>src/api/chat.js\<close> a message whose \<open>content\<close> is the empty string is
  refused exactly as one without \<open>content\<close>: for a POST with a JSON content type, a
  configured credential and a parsed body of at most 100 messages, when the messages
  before it are valid and it has a non-empty string \<open>role\<close>, the answer is 400 with the
  text that the message at that index must have a 'content' string, and nothing is sent
  upstream.
\<close>

theorem empty_content_as_missing:
  assumes "req_method req = ''POST''"
    and "req_content_type req = Some ct" and "str_includes ct ''application/json''"
    and "\<not> key_missing (api_key e)"
    and "req_json req = Inr parsed"
    and "js_get (nullish_default parsed) ''messages'' = Some (JArr ms)"
    and "length ms \<le> 100"
    and "i < length ms"
    and "validate_entries 0 (take i ms) = None"
    and "ms ! i = JObj kvs"
    and "map_of kvs ''role'' = Some (JStr role)" and "role \<noteq> []"
    and "map_of kvs ''content'' = Some (JStr []) \<or> map_of kvs ''content'' = None"
  shows "handler e req =
           (Inr \<lparr>status = 400,
                 headers = [(''content-type'', ''application/json; charset=utf-8''),
                            (''access-control-allow-origin'', ''*'')],
                 body = Json_body (error_obj (''Invalid messages: Message at index ''
                          @ string_of_nat i @ '' must have a '' @ [CHR 0x27] @ ''content''
                          @ [CHR 0x27] @ '' string''))\<rparr>, [])"
proof -
  have "ms \<noteq> []" using assms(8) by auto
  then have "validateMessages (Some (JArr ms)) = validate_entries 0 ms"
    using assms(7) by (simp add: validateMessages_def)
  then have "validateMessages (js_get (nullish_default parsed) ''messages'') =
               Some (''Message at index '' @ string_of_nat i @ '' must have a '' @ [CHR 0x27]
                     @ ''content'' @ [CHR 0x27] @ '' string'')"
    using validate_entries_content [OF assms(8-13)] assms(6) by simp
  from handler_invalid_messages [OF assms(1-5) this] show ?thesis by simp
qed

theorem empty_content_as_missing_witness:
  "handler example_env (post_request empty_content_body) =
     (Inr \<lparr>status = 400,
           headers = [(''content-type'', ''application/json; charset=utf-8''),
                      (''access-control-allow-origin'', ''*'')],
           body = Json_body (error_obj
                    (''Invalid messages: Message at index 0 must have a '' @ [CHR 0x27]
                     @ ''content'' @ [CHR 0x27] @ '' string''))\<rparr>, [])"
  using empty_content_as_missing
    [of "post_request empty_content_body" "''application/json''" example_env empty_content_body
        "[JObj [(''role'', JStr ''user''), (''content'', JStr [])]]" 0
        "[(''role'', JStr ''user''), (''content'', JStr [])]" "''user''"]
  by (simp add: post_request_def example_env_def empty_content_body_def key_missing_def
        nullish_default_def string_of_nat.simps)

subsection \<open>C10: the default model\<close>

text \<open>
  C10. The default \<open>gpt-4-mini\<close> that \<open>src/api/chat.js\<close> substitutes for an absent
  \<open>model\<close> is in its allow-list, so a request without \<open>model\<close> is never answered with the
  400 of an unsupported model.
\<close>

theorem default_model_allowed:
  assumes "req_json req = Inr parsed"
    and "js_get (nullish_default parsed) ''model'' = None"
  shows "validateModel (JStr ''gpt-4-mini'') \<and>
         (\<forall>r calls. handler e req = (Inr r, calls) \<longrightarrow>
            \<not> (status r = 400 \<and>
               (\<exists>x. body r = Json_body (error_obj (''Unsupported model: '' @ x)))))"
proof (intro conjI allI impI notI)
  show "validateModel (JStr ''gpt-4-mini'')" by (rule validModels_default)
next
  fix r calls
  assume h: "handler e req = (Inr r, calls)"
    and bad: "status r = 400 \<and> (\<exists>x. body r = Json_body (error_obj (''Unsupported model: '' @ x)))"
  from h consider "handler_try e req = (Inr r, calls)" | "status r = 500"
    by (auto simp: handler_def dest!: jsonResponse_Inr split: prod.splits sum.splits)
  then show False
  proof cases
    case 1
    with assms bad show False using handler_try_default_model by blast
  next
    case 2
    with bad show False by simp
  qed
qed

theorem default_model_allowed_witness:
  "req_json (post_request hello_body) = Inr hello_body \<and>
   js_get (nullish_default hello_body) ''model'' = None \<and>
   validateModel (JStr ''gpt-4-mini'') \<and>
   fst (handler example_env (post_request hello_body)) =
     Inr \<lparr>status = 200,
          headers = [(''content-type'', ''application/json; charset=utf-8''),
                     (''access-control-allow-origin'', ''*'')],
          body = Json_body (JObj [])\<rparr>"
  using default_model_allowed [of "post_request hello_body" hello_body example_env]
  by (simp add: post_request_def hello_body_def nullish_default_def example_env_def
        handler_def handler_try_def key_missing_def validateMessages_def user_message_def
        truthy_opt_def is_string_opt_def in_strings_def completions_path_def
        completions_request_def fetch_def answer_after_def json_upstream_def up_text_def
        observe_def closed_stream_def
        relay_upstream_def parse_example_def up_ok_def catch_fetch_def jsonResponse_ok
        stringify_body_def Let_def)

end
